theory Spec2Isabelle
  imports
    Complex_Main
    "HOL-Library.Sublist"
    "HOL-Library.Char_ord"
    "HOL-Library.List_Lexorder"
    "HOL-Library.Product_Lexorder"
    "HOL-Library.Multiset"
begin

section \<open>Values and exceptions\<close>

text \<open>
  The gate policy is read with \<^verbatim>\<open>json.load\<close>, so the entries of a rule dictionary are
  arbitrary JSON values. A JSON object is kept as an association list; strings are
  \<^typ>\<open>string\<close>, that is, lists of characters.
\<close>

datatype json =
    JNull
  | JBool bool
  | JInt int
  | JFloat rat
  | JStr string
  | JList "json list"
  | JObj "(string \<times> json) list"

text \<open>The exceptions the modelled code can raise, each with its message or key.\<close>

datatype error =
    TypeError string
  | KeyError string

definition quote :: "string \<Rightarrow> string" where
  "quote s = [CHR 0x27] @ s @ [CHR 0x27]"

text \<open>\<^verbatim>\<open>str(e)\<close>: the message; a \<^verbatim>\<open>KeyError\<close> prints the repr of its key.\<close>

fun str_of_error :: "error \<Rightarrow> string" where
  "str_of_error (TypeError msg) = msg"
| "str_of_error (KeyError k) = quote k"

fun type_name :: "json \<Rightarrow> string" where
  "type_name JNull = ''NoneType''"
| "type_name (JBool b) = ''bool''"
| "type_name (JInt i) = ''int''"
| "type_name (JFloat q) = ''float''"
| "type_name (JStr s) = ''str''"
| "type_name (JList xs) = ''list''"
| "type_name (JObj kvs) = ''dict''"

text \<open>
  Python's \<^verbatim>\<open>p in c\<close> for a string \<open>p\<close>: contiguous substring of a string, element
  of a list, key of a dictionary, and a \<^verbatim>\<open>TypeError\<close> for a value that is not a
  container (with the message CPython gives up to version 3.13).
\<close>

fun str_in :: "string \<Rightarrow> json \<Rightarrow> error + bool" where
  "str_in p (JStr s) = Inr (sublist p s)"
| "str_in p (JList xs) = Inr (JStr p \<in> set xs)"
| "str_in p (JObj kvs) = Inr (p \<in> set (map fst kvs))"
| "str_in p j = Inl (TypeError (''argument of type '' @ quote (type_name j) @ '' is not iterable''))"

text \<open>Decimal rendering of a count inside an f-string.\<close>

definition digit_char :: "nat \<Rightarrow> char" where
  "digit_char d = char_of (48 + d)"

fun str_nat :: "nat \<Rightarrow> string" where
  "str_nat n = (if n < 10 then [digit_char n] else str_nat (n div 10) @ [digit_char (n mod 10)])"

section \<open>Metrics, rules and rule results\<close>

text \<open>The dictionary returned by \<^verbatim>\<open>_calculate_vulnerability_metrics\<close>, key by key.\<close>

record metrics =
  total_vulnerabilities :: nat
  critical_count :: nat
  high_count :: nat
  medium_count :: nat
  low_count :: nat
  secret_count :: nat
  cve_count :: nat
  tool_counts :: "(string \<times> nat) list"
  category_counts :: "(string \<times> nat) list"
  critical_vulnerabilities_exist :: bool
  excessive_high_vulnerabilities :: bool
  secrets_detected :: bool
  required_tools_passed :: bool

text \<open>A policy rule is a dictionary from the policy file.\<close>

type_synonym rule = "string \<rightharpoonup> json"

text \<open>\<^verbatim>\<open>d.get(k, default)\<close>\<close>

definition dict_get :: "('k \<rightharpoonup> 'v) \<Rightarrow> 'k \<Rightarrow> 'v \<Rightarrow> 'v" where
  "dict_get d k dflt = (case d k of None \<Rightarrow> dflt | Some v \<Rightarrow> v)"

text \<open>
  The result dictionary of one rule. The entry appended for the required tools has
  only the keys \<^verbatim>\<open>name\<close>, \<^verbatim>\<open>passed\<close> and \<^verbatim>\<open>reason\<close>, so \<^verbatim>\<open>condition\<close> and
  \<^verbatim>\<open>action\<close> are optional.
\<close>

record rule_result =
  rr_name :: json
  rr_passed :: bool
  rr_condition :: "json option"
  rr_reason :: string
  rr_action :: "json option"

definition mk_result :: "rule \<Rightarrow> json \<Rightarrow> bool \<Rightarrow> string \<Rightarrow> rule_result" where
  "mk_result rule cond p why =
     \<lparr> rr_name = dict_get rule ''name'' (JStr ''Unknown Rule''),
       rr_passed = p,
       rr_condition = Some cond,
       rr_reason = why,
       rr_action = Some (dict_get rule ''action'' (JStr ''fail'')) \<rparr>"

text \<open>Sequencing of a step that may raise: the exception skips the rest.\<close>

definition bind_err :: "error + 'a \<Rightarrow> ('a \<Rightarrow> error + 'b) \<Rightarrow> error + 'b" where
  "bind_err x f = (case x of Inl e \<Rightarrow> Inl e | Inr v \<Rightarrow> f v)"

text \<open>The body of the \<^verbatim>\<open>try\<close> block of \<^verbatim>\<open>_evaluate_rule\<close>: the \<^verbatim>\<open>if\<close>/\<^verbatim>\<open>elif\<close> chain in source order.\<close>

definition evaluate_rule_try :: "rule \<Rightarrow> metrics \<Rightarrow> error + rule_result" where
  "evaluate_rule_try rule m =
     (let condition = dict_get rule ''condition'' (JStr '''') in
      bind_err (str_in ''critical_count == 0'' condition) (\<lambda>is_critical.
      if is_critical then
        (let passed = (critical_count m = 0) in
         Inr (mk_result rule condition passed
                (if \<not> passed then ''Critical vulnerabilities found''
                 else ''No critical vulnerabilities'')))
      else
      bind_err (str_in ''high_count <= 10'' condition) (\<lambda>is_high.
      if is_high then
        (let passed = (high_count m \<le> 10) in
         Inr (mk_result rule condition passed
                (if \<not> passed
                 then ''High severity count ('' @ str_nat (high_count m)
                        @ '') exceeds threshold (10)''
                 else ''High severity within limits'')))
      else
      bind_err (str_in ''secret_count == 0'' condition) (\<lambda>is_secret.
      if is_secret then
        (let passed = (secret_count m = 0) in
         Inr (mk_result rule condition passed
                (if \<not> passed then ''Secrets detected in codebase''
                 else ''No secrets detected'')))
      else
      bind_err (str_in ''required_tools_passed'' condition) (\<lambda>is_tools.
      if is_tools then
        (let passed = required_tools_passed m in
         Inr (mk_result rule condition passed
                (if \<not> passed then ''Required security tools failed''
                 else ''All required tools passed'')))
      else
        Inr (mk_result rule condition True ''Rule condition not recognized''))))))"

text \<open>\<^verbatim>\<open>_evaluate_rule\<close>: the \<^verbatim>\<open>except\<close> handler turns an exception into a failed result.\<close>

definition evaluate_rule :: "rule \<Rightarrow> metrics \<Rightarrow> rule_result" where
  "evaluate_rule rule m =
     (case evaluate_rule_try rule m of
        Inr r \<Rightarrow> r
      | Inl e \<Rightarrow>
          mk_result rule (dict_get rule ''condition'' (JStr '''')) False
            (''Evaluation error: '' @ str_of_error e))"

section \<open>Findings and the gate policy\<close>

text \<open>
  A vulnerability is a dictionary; its fields have the types of the Finding record.
  \<open>None\<close> stands for a key that is absent (or, for the identifiers and the
  location, holds Python's \<^verbatim>\<open>None\<close>), so that every \<^verbatim>\<open>.get\<close> with a
  default is a case distinction of the model. Strings are taken to be ASCII.
\<close>

record finding =
  f_id :: "string option"
  f_title :: "string option"
  f_description :: "string option"
  f_severity :: "string option"
  f_tool :: "string option"
  f_category :: "string option"
  f_file_path :: "string option"
  f_line_number :: "int option"
  f_cve_id :: "string option"
  f_cwe_id :: "string option"
  f_package_name :: "string option"
  f_package_version :: "string option"
  f_is_false_positive :: "bool option"
  f_status :: "string option"

definition get_or :: "'a option \<Rightarrow> 'a \<Rightarrow> 'a" where
  "get_or v dflt = (case v of None \<Rightarrow> dflt | Some x \<Rightarrow> x)"

text \<open>Truthiness of an optional string: \<^verbatim>\<open>None\<close> and the empty string are false.\<close>

definition truthy_str :: "string option \<Rightarrow> bool" where
  "truthy_str v = (case v of None \<Rightarrow> False | Some s \<Rightarrow> s \<noteq> [])"

record tool_requirement =
  required :: "bool option"
  min_score :: "int option"

text \<open>
  \<^verbatim>\<open>SecurityGateConfig\<close>, with the types of the policy file format: thresholds are
  integers, a tool requirement is a dictionary with optional keys, and the
  allow-list holds strings. The rules stay untyped dictionaries. The requirements
  are kept in the order of \<^verbatim>\<open>.items()\<close>.
\<close>

record security_gate_config =
  severity_thresholds :: "string \<rightharpoonup> int"
  tool_requirements :: "(string \<times> tool_requirement) list"
  policy_rules :: "rule list"
  allow_list :: "string list"
  fail_conditions :: "string list"

definition get_default_policy :: security_gate_config where
  "get_default_policy =
     \<lparr> severity_thresholds =
         [''critical'' \<mapsto> 0, ''high'' \<mapsto> 10, ''medium'' \<mapsto> 50, ''low'' \<mapsto> 100],
       tool_requirements =
         [(''CodeQL'', \<lparr> required = Some True, min_score = Some 0 \<rparr>),
          (''Grype'', \<lparr> required = Some True, min_score = Some 0 \<rparr>),
          (''Semgrep'', \<lparr> required = Some False, min_score = Some 0 \<rparr>)],
       policy_rules =
         [[''name'' \<mapsto> JStr ''No critical vulnerabilities'',
           ''condition'' \<mapsto> JStr ''critical_count == 0'',
           ''action'' \<mapsto> JStr ''fail''],
          [''name'' \<mapsto> JStr ''Limited high-severity issues'',
           ''condition'' \<mapsto> JStr ''high_count <= 10'',
           ''action'' \<mapsto> JStr ''fail''],
          [''name'' \<mapsto> JStr ''No secrets in code'',
           ''condition'' \<mapsto> JStr ''secret_count == 0'',
           ''action'' \<mapsto> JStr ''fail''],
          [''name'' \<mapsto> JStr ''All required tools must pass'',
           ''condition'' \<mapsto> JStr ''required_tools_passed'',
           ''action'' \<mapsto> JStr ''fail'']],
       allow_list = [''CWE-999'', ''info-only'', ''documentation''],
       fail_conditions =
         [''critical_vulnerabilities_exist'', ''excessive_high_vulnerabilities'',
          ''secrets_detected'', ''required_tools_failed''] \<rparr>"

section \<open>The evaluator object\<close>

text \<open>
  \<^verbatim>\<open>self.scan_results\<close> is a dictionary with at most the keys \<^verbatim>\<open>analysis\<close> and
  \<^verbatim>\<open>tool_results\<close>; \<open>None\<close> is an absent key.
\<close>

record scan_results_dict =
  sr_analysis :: "json option"
  sr_tool_results :: "(string \<rightharpoonup> string) option"

text \<open>
  \<^verbatim>\<open>self.gate_details\<close>: the keys written by \<^verbatim>\<open>evaluate_security_gates\<close> and by
  \<^verbatim>\<open>save_evaluation_results\<close>; \<open>None\<close> is an absent key.
\<close>

record gate_details_dict =
  gd_status :: "string option"
  gd_failed_rules :: "rule_result list option"
  gd_passed_rules :: "json list option"
  gd_metrics :: "metrics option"
  gd_timestamp :: "string option"
  gd_scan_id :: "string option"
  gd_gate_status :: "string option"
  gd_total_vulnerabilities :: "nat option"
  gd_critical_issues :: "nat option"
  gd_high_issues :: "nat option"
  gd_medium_issues :: "nat option"
  gd_low_issues :: "nat option"

definition empty_details :: gate_details_dict where
  "empty_details =
     \<lparr> gd_status = None, gd_failed_rules = None, gd_passed_rules = None,
       gd_metrics = None, gd_timestamp = None, gd_scan_id = None,
       gd_gate_status = None, gd_total_vulnerabilities = None,
       gd_critical_issues = None, gd_high_issues = None,
       gd_medium_issues = None, gd_low_issues = None \<rparr>"

record evaluator =
  config :: security_gate_config
  scan_results :: scan_results_dict
  vulnerabilities :: "finding list"
  gate_status :: string
  gate_details :: gate_details_dict

text \<open>\<^verbatim>\<open>__init__\<close>, after the policy has been loaded.\<close>

definition init_evaluator :: "security_gate_config \<Rightarrow> evaluator" where
  "init_evaluator cfg =
     \<lparr> config = cfg,
       scan_results = \<lparr> sr_analysis = None, sr_tool_results = None \<rparr>,
       vulnerabilities = [],
       gate_status = ''UNKNOWN'',
       gate_details = empty_details \<rparr>"

section \<open>Vulnerability aggregation\<close>

text \<open>\<^verbatim>\<open>str.lower\<close> on ASCII letters; other characters are kept.\<close>

definition lower_char :: "char \<Rightarrow> char" where
  "lower_char c =
     (if CHR ''A'' \<le> c \<and> c \<le> CHR ''Z'' then char_of (of_char c + (32::nat)) else c)"

definition lower :: "string \<Rightarrow> string" where
  "lower s = map lower_char s"

text \<open>\<^verbatim>\<open>_is_allowed_vulnerability\<close>\<close>

definition is_allowed_vulnerability :: "security_gate_config \<Rightarrow> finding \<Rightarrow> bool" where
  "is_allowed_vulnerability cfg vuln =
     (let cwe_id = f_cwe_id vuln in
      if truthy_str cwe_id \<and> cwe_id \<in> set (map Some (allow_list cfg)) then True
      else
        (let title = lower (get_or (f_title vuln) '''') in
         list_ex (\<lambda>allowed_item. sublist (lower allowed_item) title) (allow_list cfg)))"

text \<open>\<^verbatim>\<open>_evaluate_required_tools\<close>: the loop over \<^verbatim>\<open>tool_requirements.items()\<close>.\<close>

fun required_tools_loop :: "(string \<rightharpoonup> string) \<Rightarrow> (string \<times> tool_requirement) list \<Rightarrow> bool" where
  "required_tools_loop tool_results [] = True"
| "required_tools_loop tool_results ((tool, requirements) # rest) =
     (if get_or (required requirements) False then
        (let tool_result = dict_get tool_results tool ''unknown'' in
         if tool_result \<notin> set [''passed'', ''success''] then False
         else required_tools_loop tool_results rest)
      else required_tools_loop tool_results rest)"

definition evaluate_required_tools :: "evaluator \<Rightarrow> bool" where
  "evaluate_required_tools ev =
     (let tool_results = get_or (sr_tool_results (scan_results ev)) Map.empty in
      required_tools_loop tool_results (tool_requirements (config ev)))"

text \<open>
  A \<^verbatim>\<open>defaultdict(int)\<close> as an association list in insertion order:
  \<^verbatim>\<open>d[k] += 1\<close> and \<^verbatim>\<open>d[k]\<close>.
\<close>

fun incr :: "string \<Rightarrow> (string \<times> nat) list \<Rightarrow> (string \<times> nat) list" where
  "incr k [] = [(k, 1)]"
| "incr k ((k', n) # d) = (if k = k' then (k', n + 1) # d else (k', n) # incr k d)"

definition count_of :: "(string \<times> nat) list \<Rightarrow> string \<Rightarrow> nat" where
  "count_of d k = (case map_of d k of None \<Rightarrow> 0 | Some n \<Rightarrow> n)"

text \<open>The local variables of \<^verbatim>\<open>_calculate_vulnerability_metrics\<close>.\<close>

record counters =
  severity_counts :: "(string \<times> nat) list"
  tool_cnts :: "(string \<times> nat) list"
  category_cnts :: "(string \<times> nat) list"
  secret_cnt :: nat
  cve_cnt :: nat

definition zero_counters :: counters where
  "zero_counters =
     \<lparr> severity_counts = [], tool_cnts = [], category_cnts = [], secret_cnt = 0, cve_cnt = 0 \<rparr>"

text \<open>One iteration of the loop over \<^verbatim>\<open>self.vulnerabilities\<close>.\<close>

definition count_vulnerability :: "security_gate_config \<Rightarrow> counters \<Rightarrow> finding \<Rightarrow> counters" where
  "count_vulnerability cfg c vuln =
     (if get_or (f_is_false_positive vuln) False then c
      else if is_allowed_vulnerability cfg vuln then c
      else
        (let severity = get_or (f_severity vuln) ''low'';
             tool = get_or (f_tool vuln) ''unknown'';
             category = get_or (f_category vuln) ''unknown''
         in \<lparr> severity_counts = incr severity (severity_counts c),
              tool_cnts = incr tool (tool_cnts c),
              category_cnts = incr category (category_cnts c),
              secret_cnt = (if category = ''Secret Scanning'' then secret_cnt c + 1 else secret_cnt c),
              cve_cnt = (if truthy_str (f_cve_id vuln) then cve_cnt c + 1 else cve_cnt c) \<rparr>))"

definition count_vulnerabilities :: "security_gate_config \<Rightarrow> finding list \<Rightarrow> counters" where
  "count_vulnerabilities cfg vulns = foldl (count_vulnerability cfg) zero_counters vulns"

text \<open>
  \<^verbatim>\<open>_calculate_vulnerability_metrics\<close>. Building the returned dictionary reads
  \<^verbatim>\<open>severity_thresholds['high']\<close>, a \<^verbatim>\<open>KeyError\<close> when the policy has no such key.
\<close>

definition calculate_vulnerability_metrics :: "evaluator \<Rightarrow> error + metrics" where
  "calculate_vulnerability_metrics ev =
     (let c = count_vulnerabilities (config ev) (vulnerabilities ev) in
      case severity_thresholds (config ev) ''high'' of
        None \<Rightarrow> Inl (KeyError ''high'')
      | Some high_threshold \<Rightarrow>
          Inr \<lparr> total_vulnerabilities =
                  length (filter (\<lambda>v. \<not> get_or (f_is_false_positive v) False) (vulnerabilities ev)),
                critical_count = count_of (severity_counts c) ''critical'',
                high_count = count_of (severity_counts c) ''high'',
                medium_count = count_of (severity_counts c) ''medium'',
                low_count = count_of (severity_counts c) ''low'',
                secret_count = secret_cnt c,
                cve_count = cve_cnt c,
                tool_counts = tool_cnts c,
                category_counts = category_cnts c,
                critical_vulnerabilities_exist = (count_of (severity_counts c) ''critical'' > 0),
                excessive_high_vulnerabilities =
                  (int (count_of (severity_counts c) ''high'') > high_threshold),
                secrets_detected = (secret_cnt c > 0),
                required_tools_passed = evaluate_required_tools ev \<rparr>)"

section \<open>Gate evaluation\<close>

text \<open>
  A method that mutates the evaluator returns the exception it raised, if any,
  together with the evaluator as the method left it.
\<close>

type_synonym 'a raising = "error option \<times> 'a"

definition required_tools_entry :: rule_result where
  "required_tools_entry =
     \<lparr> rr_name = JStr ''Required tools evaluation'',
       rr_passed = False,
       rr_condition = None,
       rr_reason = ''One or more required security tools failed'',
       rr_action = None \<rparr>"

text \<open>
  \<^verbatim>\<open>evaluate_security_gates\<close>; \<open>now\<close> is the value of
  \<^verbatim>\<open>datetime.utcnow().isoformat()\<close>. The last statement subscripts
  \<^verbatim>\<open>gate_details['failed_rules']\<close>, a key that only the FAILED branch creates.
\<close>

definition evaluate_security_gates :: "string \<Rightarrow> evaluator \<Rightarrow> evaluator raising" where
  "evaluate_security_gates now ev =
     (case calculate_vulnerability_metrics ev of
        Inl e \<Rightarrow> (Some e, ev)
      | Inr metrics \<Rightarrow>
          (let gate_results = map (\<lambda>rule. evaluate_rule rule metrics) (policy_rules (config ev));
               failed_rules = filter (\<lambda>r. \<not> rr_passed r) gate_results;
               ev1 =
                 (if failed_rules \<noteq> [] then
                    ev\<lparr> gate_status := ''FAILED'',
                        gate_details := empty_details
                          \<lparr> gd_status := Some ''FAILED'',
                            gd_failed_rules := Some failed_rules,
                            gd_metrics := Some metrics,
                            gd_timestamp := Some now \<rparr> \<rparr>
                  else
                    ev\<lparr> gate_status := ''PASSED'',
                        gate_details := empty_details
                          \<lparr> gd_status := Some ''PASSED'',
                            gd_passed_rules := Some (map rr_name gate_results),
                            gd_metrics := Some metrics,
                            gd_timestamp := Some now \<rparr> \<rparr>);
               tools_passed = evaluate_required_tools ev1
           in if \<not> tools_passed then
                (let ev2 = ev1\<lparr> gate_status := ''FAILED'' \<rparr> in
                 case gd_failed_rules (gate_details ev2) of
                   None \<Rightarrow> (Some (KeyError ''failed_rules''), ev2)
                 | Some rules \<Rightarrow>
                     (None, ev2\<lparr> gate_details := (gate_details ev2)
                                  \<lparr> gd_failed_rules := Some (rules @ [required_tools_entry]) \<rparr> \<rparr>))
              else (None, ev1)))"

text \<open>
  \<^verbatim>\<open>save_evaluation_results\<close>, as far as it changes the evaluator; \<open>scan_id\<close> and
  \<open>now\<close> are the two formatted clock readings. Writing the file is not modelled.
\<close>

definition save_evaluation_results :: "string \<Rightarrow> string \<Rightarrow> evaluator \<Rightarrow> evaluator raising" where
  "save_evaluation_results scan_id now ev =
     (let d1 = (gate_details ev)\<lparr> gd_scan_id := Some scan_id,
                                  gd_gate_status := Some (gate_status ev) \<rparr> in
      case gd_metrics d1 of
        None \<Rightarrow> (Some (KeyError ''metrics''), ev\<lparr> gate_details := d1 \<rparr>)
      | Some m \<Rightarrow>
          (None, ev\<lparr> gate_details := d1
             \<lparr> gd_total_vulnerabilities :=
                 Some (sum_list [critical_count m, high_count m, medium_count m, low_count m]),
               gd_critical_issues := Some (critical_count m),
               gd_high_issues := Some (high_count m),
               gd_medium_issues := Some (medium_count m),
               gd_low_issues := Some (low_count m),
               gd_timestamp := Some now \<rparr> \<rparr>))"

section \<open>SARIF normalisation\<close>

text \<open>
  A SARIF log with the keys the normaliser reads, typed as the SARIF schema types
  them; \<open>None\<close> is an absent key.
\<close>

record artifact_location =
  uri :: "string option"

record region_dict =
  startLine :: "int option"

record physical_location =
  artifactLocation :: "artifact_location option"
  region :: "region_dict option"

record location =
  physicalLocation :: "physical_location option"

record message_dict =
  message_text :: "string option"

record sarif_result =
  level :: "string option"
  ruleId :: "string option"
  message :: "message_dict option"
  locations :: "location list option"

record sarif_run =
  results :: "sarif_result list option"

record sarif_log =
  runs :: "sarif_run list option"

text \<open>\<^verbatim>\<open>_map_sarif_level_to_severity\<close>: \<^verbatim>\<open>mapping.get(level, 'low')\<close>\<close>

definition map_sarif_level_to_severity :: "string option \<Rightarrow> string" where
  "map_sarif_level_to_severity lv =
     (if lv = Some ''error'' then ''high''
      else if lv = Some ''warning'' then ''medium''
      else if lv = Some ''note'' then ''low''
      else ''low'')"

text \<open>The dictionary built for one result, with its location filled in.\<close>

definition process_result :: "string \<Rightarrow> sarif_result \<Rightarrow> finding" where
  "process_result tool_name r =
     (let msg = get_or (message r) \<lparr> message_text = None \<rparr>;
          processed_result =
            \<lparr> f_id = Some (tool_name @ ''-'' @ get_or (ruleId r) ''unknown''),
              f_title = Some (get_or (message_text msg) (tool_name @ '' finding'')),
              f_description = Some (get_or (message_text msg) ''''),
              f_severity = Some (map_sarif_level_to_severity (level r)),
              f_tool = Some tool_name,
              f_category = Some ''SAST'',
              f_file_path = None,
              f_line_number = None,
              f_cve_id = None,
              f_cwe_id = None,
              f_package_name = None,
              f_package_version = None,
              f_is_false_positive = None,
              f_status = None \<rparr>
      in case locations r of
           Some (loc # others) \<Rightarrow>
             (case physicalLocation loc of
                Some pl \<Rightarrow>
                  processed_result
                    \<lparr> f_file_path := uri (get_or (artifactLocation pl) \<lparr> uri = None \<rparr>),
                      f_line_number := startLine (get_or (region pl) \<lparr> startLine = None \<rparr>) \<rparr>
              | None \<Rightarrow> processed_result)
         | _ \<Rightarrow> processed_result)"

text \<open>The inner and the outer loop of \<^verbatim>\<open>_process_sarif_for_tool\<close>, appending to \<open>acc\<close>.\<close>

fun results_loop :: "string \<Rightarrow> sarif_result list \<Rightarrow> finding list \<Rightarrow> finding list" where
  "results_loop tool_name [] acc = acc"
| "results_loop tool_name (r # rest) acc =
     (if level r \<in> set [Some ''error'', Some ''warning'', Some ''note'']
      then results_loop tool_name rest (acc @ [process_result tool_name r])
      else results_loop tool_name rest acc)"

fun runs_loop :: "string \<Rightarrow> sarif_run list \<Rightarrow> finding list \<Rightarrow> finding list" where
  "runs_loop tool_name [] acc = acc"
| "runs_loop tool_name (run # rest) acc =
     runs_loop tool_name rest (results_loop tool_name (get_or (results run) []) acc)"

definition process_sarif_for_tool :: "sarif_log \<Rightarrow> string \<Rightarrow> finding list" where
  "process_sarif_for_tool sarif_data tool_name =
     runs_loop tool_name (get_or (runs sarif_data) []) []"

section \<open>Loading scan results\<close>

text \<open>
  The scan-results directory as the loader sees it. A file that exists is either
  unreadable (\<^verbatim>\<open>open\<close> or \<^verbatim>\<open>json.load\<close> raised) or parsed. For the tool
  directories, \<open>tool_dirs\<close> gives the directories matched by each glob pattern; a
  JSON file is given by its name and by what \<^verbatim>\<open>_process_json_for_tool\<close> produced
  from it.
\<close>

datatype 'a file_read = ReadError | Parsed 'a

record vulnerability_analysis_dir =
  vulnerabilities_json :: "finding list file_read option"
  analysis_json :: "json file_read option"

record tool_directory =
  sarif_files :: "sarif_log file_read list"
  json_files :: "(string \<times> finding list file_read) list"

record scan_results_directory =
  vulnerability_analysis :: "vulnerability_analysis_dir option"
  tool_dirs :: "string \<Rightarrow> tool_directory list"

text \<open>\<^verbatim>\<open>_create_vulnerability_from_data\<close>: the defaults of the absent keys.\<close>

definition create_vulnerability_from_data :: "finding \<Rightarrow> finding option" where
  "create_vulnerability_from_data vuln_data =
     Some \<lparr> f_id = Some (get_or (f_id vuln_data) ''unknown''),
            f_title = Some (get_or (f_title vuln_data) ''''),
            f_description = Some (get_or (f_description vuln_data) ''''),
            f_severity = Some (get_or (f_severity vuln_data) ''low''),
            f_tool = Some (get_or (f_tool vuln_data) ''unknown''),
            f_category = Some (get_or (f_category vuln_data) ''unknown''),
            f_file_path = f_file_path vuln_data,
            f_line_number = f_line_number vuln_data,
            f_cve_id = f_cve_id vuln_data,
            f_cwe_id = f_cwe_id vuln_data,
            f_package_name = f_package_name vuln_data,
            f_package_version = f_package_version vuln_data,
            f_is_false_positive = Some (get_or (f_is_false_positive vuln_data) False),
            f_status = Some (get_or (f_status vuln_data) ''open'') \<rparr>"

definition append_vulnerability :: "evaluator \<Rightarrow> finding \<Rightarrow> evaluator" where
  "append_vulnerability ev vuln_data_item =
     (case create_vulnerability_from_data vuln_data_item of
        Some vulnerability \<Rightarrow> ev\<lparr> vulnerabilities := vulnerabilities ev @ [vulnerability] \<rparr>
      | None \<Rightarrow> ev)"

text \<open>\<^verbatim>\<open>_load_vulnerability_analysis\<close>: the only place that assigns into \<^verbatim>\<open>scan_results\<close>.\<close>

definition load_vulnerability_analysis :: "vulnerability_analysis_dir \<Rightarrow> evaluator \<Rightarrow> evaluator" where
  "load_vulnerability_analysis d ev =
     (let ev1 =
            (case vulnerabilities_json d of
               Some (Parsed vuln_data) \<Rightarrow> foldl append_vulnerability ev vuln_data
             | _ \<Rightarrow> ev)
      in case analysis_json d of
           Some (Parsed analysis_data) \<Rightarrow>
             ev1\<lparr> scan_results := (scan_results ev1)\<lparr> sr_analysis := Some analysis_data \<rparr> \<rparr>
         | _ \<Rightarrow> ev1)"

definition extend_vulnerabilities :: "evaluator \<Rightarrow> finding list \<Rightarrow> evaluator" where
  "extend_vulnerabilities ev found = ev\<lparr> vulnerabilities := vulnerabilities ev @ found \<rparr>"

definition load_sarif_file :: "string \<Rightarrow> evaluator \<Rightarrow> sarif_log file_read \<Rightarrow> evaluator" where
  "load_sarif_file tool_name ev f =
     (case f of
        Parsed sarif_data \<Rightarrow> extend_vulnerabilities ev (process_sarif_for_tool sarif_data tool_name)
      | ReadError \<Rightarrow> ev)"

definition load_json_file :: "evaluator \<Rightarrow> string \<times> finding list file_read \<Rightarrow> evaluator" where
  "load_json_file ev f =
     (if sublist ''sarif'' (lower (fst f)) then ev
      else case snd f of
             Parsed found \<Rightarrow> extend_vulnerabilities ev found
           | ReadError \<Rightarrow> ev)"

text \<open>\<^verbatim>\<open>_process_tool_directory\<close>\<close>

definition process_tool_directory :: "string \<Rightarrow> evaluator \<Rightarrow> tool_directory \<Rightarrow> evaluator" where
  "process_tool_directory tool_name ev tool_dir =
     foldl load_json_file
       (foldl (load_sarif_file tool_name) ev (sarif_files tool_dir))
       (json_files tool_dir)"

text \<open>\<^verbatim>\<open>s.rstrip('-')\<close>\<close>

definition rstrip_dash :: "string \<Rightarrow> string" where
  "rstrip_dash s = rev (dropWhile (\<lambda>c. c = CHR ''-'') (rev s))"

definition tool_dir_patterns :: "string list" where
  "tool_dir_patterns =
     [''codeql-results-'', ''semgrep-results-'', ''sca-results-'', ''sonarqube-results-'',
      ''secret-scanning-'', ''container-security-'', ''iac-security-'']"

text \<open>\<^verbatim>\<open>_load_tool_results\<close>\<close>

definition load_tool_results :: "scan_results_directory \<Rightarrow> evaluator \<Rightarrow> evaluator" where
  "load_tool_results scan_results_dir ev =
     foldl (\<lambda>ev' tool_dir_pattern.
              foldl (process_tool_directory (rstrip_dash tool_dir_pattern)) ev'
                (tool_dirs scan_results_dir tool_dir_pattern))
       ev tool_dir_patterns"

text \<open>\<^verbatim>\<open>load_scan_results\<close>\<close>

definition load_scan_results :: "scan_results_directory \<Rightarrow> evaluator \<Rightarrow> evaluator" where
  "load_scan_results scan_results_dir ev =
     (let ev1 =
            (case vulnerability_analysis scan_results_dir of
               Some vuln_analysis_dir \<Rightarrow> load_vulnerability_analysis vuln_analysis_dir ev
             | None \<Rightarrow> ev)
      in load_tool_results scan_results_dir ev1)"

section \<open>The command line\<close>

text \<open>The policy file: absent, unreadable, or a dictionary with optional keys.\<close>

record policy_data =
  pd_severity_thresholds :: "(string \<rightharpoonup> int) option"
  pd_tool_requirements :: "(string \<times> tool_requirement) list option"
  pd_policy_rules :: "rule list option"
  pd_allow_list :: "string list option"
  pd_fail_conditions :: "string list option"

text \<open>\<^verbatim>\<open>_load_gate_policy\<close>\<close>

definition load_gate_policy :: "policy_data file_read option \<Rightarrow> security_gate_config" where
  "load_gate_policy policy_file =
     (case policy_file of
        None \<Rightarrow> get_default_policy
      | Some ReadError \<Rightarrow> get_default_policy
      | Some (Parsed pd) \<Rightarrow>
          \<lparr> severity_thresholds = get_or (pd_severity_thresholds pd) Map.empty,
            tool_requirements = get_or (pd_tool_requirements pd) [],
            policy_rules = get_or (pd_policy_rules pd) [],
            allow_list = get_or (pd_allow_list pd) [],
            fail_conditions = get_or (pd_fail_conditions pd) [] \<rparr>)"

text \<open>
  \<^verbatim>\<open>main\<close>: the line printed for CI and the exit code. Any exception reaches the
  handler that prints \<^verbatim>\<open>SECURITY_GATE_STATUS=ERROR\<close> and exits with 1.
\<close>

record clock =
  evaluation_time :: string
  save_scan_id :: string
  save_time :: string

definition main :: "policy_data file_read option \<Rightarrow> scan_results_directory \<Rightarrow> clock \<Rightarrow> string \<times> nat" where
  "main policy_file scan_results_dir clk =
     (let evaluator0 = init_evaluator (load_gate_policy policy_file);
          evaluator1 = load_scan_results scan_results_dir evaluator0
      in case evaluate_security_gates (evaluation_time clk) evaluator1 of
           (Some e, evaluator2) \<Rightarrow> (''SECURITY_GATE_STATUS=ERROR'', 1)
         | (None, evaluator2) \<Rightarrow>
             (case save_evaluation_results (save_scan_id clk) (save_time clk) evaluator2 of
                (Some e, evaluator3) \<Rightarrow> (''SECURITY_GATE_STATUS=ERROR'', 1)
              | (None, evaluator3) \<Rightarrow>
                  if gate_status evaluator3 = ''FAILED''
                  then (''SECURITY_GATE_STATUS=FAILED'', 1)
                  else (''SECURITY_GATE_STATUS=PASSED'', 0)))"

section \<open>Dashboard: the top vulnerabilities\<close>

text \<open>\<^verbatim>\<open>severity_order.get(s, 0)\<close>\<close>

definition severity_order :: "string \<Rightarrow> nat" where
  "severity_order s =
     (if s = ''critical'' then 4 else if s = ''high'' then 3
      else if s = ''medium'' then 2 else if s = ''low'' then 1 else 0)"

text \<open>The \<^verbatim>\<open>key\<close> function of the sort: a pair, compared lexicographically.\<close>

definition vuln_key :: "finding \<Rightarrow> nat \<times> string" where
  "vuln_key v = (severity_order (get_or (f_severity v) ''low''), get_or (f_title v) '''')"

text \<open>
  \<^verbatim>\<open>sorted(xs, key=k, reverse=True)\<close>: Python reverses the list, sorts it stably in
  ascending order of the key and reverses the result, so that elements with equal
  keys keep their original order.
\<close>

definition sorted_reverse :: "('a \<Rightarrow> 'k::linorder) \<Rightarrow> 'a list \<Rightarrow> 'a list" where
  "sorted_reverse k xs = rev (sort_key k (rev xs))"

definition sorted_vulns :: "finding list \<Rightarrow> nat \<Rightarrow> finding list" where
  "sorted_vulns vulnerability_data limit = take limit (sorted_reverse vuln_key vulnerability_data)"

definition str_int :: "int \<Rightarrow> string" where
  "str_int i = (if i < 0 then ''-'' @ str_nat (nat (- i)) else str_nat (nat i))"

text \<open>\<^verbatim>\<open>_format_location\<close>\<close>

definition format_location :: "finding \<Rightarrow> string" where
  "format_location vuln =
     (let file_path = get_or (f_file_path vuln) '''';
          line_number = f_line_number vuln
      in case (if file_path \<noteq> [] then line_number else None) of
           Some n \<Rightarrow>
             if n \<noteq> 0 then file_path @ '':'' @ str_int n
             else if file_path \<noteq> [] then file_path else ''N/A''
         | None \<Rightarrow> if file_path \<noteq> [] then file_path else ''N/A'')"

record formatted_vuln =
  fv_severity :: string
  fv_title :: string
  fv_tool :: string
  fv_category :: string
  fv_location :: string

definition format_vuln :: "finding \<Rightarrow> formatted_vuln" where
  "format_vuln vuln =
     \<lparr> fv_severity = get_or (f_severity vuln) ''unknown'',
       fv_title = get_or (f_title vuln) ''Unknown vulnerability'',
       fv_tool = get_or (f_tool vuln) ''unknown'',
       fv_category = get_or (f_category vuln) ''unknown'',
       fv_location = format_location vuln \<rparr>"

text \<open>\<^verbatim>\<open>_get_top_vulnerabilities\<close>\<close>

definition get_top_vulnerabilities :: "finding list \<Rightarrow> nat \<Rightarrow> formatted_vuln list" where
  "get_top_vulnerabilities vulnerability_data limit =
     map format_vuln (sorted_vulns vulnerability_data limit)"

section \<open>Example inputs and auxiliary notions\<close>

text \<open>Concrete values that the instance theorems below evaluate the definitions on.\<close>

definition zero_metrics :: metrics where
  "zero_metrics =
     \<lparr> total_vulnerabilities = 0, critical_count = 0, high_count = 0, medium_count = 0,
       low_count = 0, secret_count = 0, cve_count = 0, tool_counts = [],
       category_counts = [], critical_vulnerabilities_exist = False,
       excessive_high_vulnerabilities = False, secrets_detected = False,
       required_tools_passed = True \<rparr>"

text \<open>A finding that has only a severity and a title.\<close>

definition example_finding :: "string \<Rightarrow> string \<Rightarrow> finding" where
  "example_finding sev title =
     \<lparr> f_id = None, f_title = Some title, f_description = None, f_severity = Some sev,
       f_tool = None, f_category = None, f_file_path = None, f_line_number = None,
       f_cve_id = None, f_cwe_id = None, f_package_name = None, f_package_version = None,
       f_is_false_positive = None, f_status = None \<rparr>"

text \<open>A rule dictionary without a \<^verbatim>\<open>condition\<close> key, and one whose condition is a number.\<close>

definition rule_without_condition :: rule where
  "rule_without_condition = [''name'' \<mapsto> JStr ''Unfinished rule'', ''action'' \<mapsto> JStr ''fail'']"

definition rule_with_number :: rule where
  "rule_with_number = [''name'' \<mapsto> JStr ''Numeric rule'', ''condition'' \<mapsto> JInt 0]"

text \<open>A policy file with thresholds, the given rules, no tool requirements and no allow-list.\<close>

definition policy_with_rules :: "rule list \<Rightarrow> security_gate_config" where
  "policy_with_rules rs =
     \<lparr> severity_thresholds = [''critical'' \<mapsto> 0, ''high'' \<mapsto> 5],
       tool_requirements = [],
       policy_rules = rs,
       allow_list = [],
       fail_conditions = [] \<rparr>"

text \<open>The default policy as a policy file, without its last rule (the one on required tools).\<close>

definition policy_file_three_rules :: policy_data where
  "policy_file_three_rules =
     \<lparr> pd_severity_thresholds = Some (severity_thresholds get_default_policy),
       pd_tool_requirements = Some (tool_requirements get_default_policy),
       pd_policy_rules = Some (butlast (policy_rules get_default_policy)),
       pd_allow_list = Some (allow_list get_default_policy),
       pd_fail_conditions = Some (fail_conditions get_default_policy) \<rparr>"

text \<open>A scan-results directory with no files at all.\<close>

definition empty_scan_dir :: scan_results_directory where
  "empty_scan_dir = \<lparr> vulnerability_analysis = None, tool_dirs = (\<lambda>pattern. []) \<rparr>"

definition example_clock :: clock where
  "example_clock =
     \<lparr> evaluation_time = ''2024-01-01T00:00:00'', save_scan_id = ''scan-20240101-000000'',
       save_time = ''2024-01-01T00:00:01'' \<rparr>"

text \<open>
  An evaluator whose policy has the four default rules and the configured threshold
  \<^verbatim>\<open>high: 5\<close>, loaded with seven findings of high severity.
\<close>

definition seven_high :: evaluator where
  "seven_high =
     (init_evaluator (policy_with_rules (policy_rules get_default_policy)))
       \<lparr> vulnerabilities :=
           [example_finding ''high'' ''XSS'', example_finding ''high'' ''XSS'',
            example_finding ''high'' ''XSS'', example_finding ''high'' ''XSS'',
            example_finding ''high'' ''XSS'', example_finding ''high'' ''XSS'',
            example_finding ''high'' ''XSS''] \<rparr>"

definition seven_high_metrics :: metrics where
  "seven_high_metrics =
     \<lparr> total_vulnerabilities = 7, critical_count = 0, high_count = 7, medium_count = 0,
       low_count = 0, secret_count = 0, cve_count = 0, tool_counts = [(''unknown'', 7)],
       category_counts = [(''unknown'', 7)], critical_vulnerabilities_exist = False,
       excessive_high_vulnerabilities = True, secrets_detected = False,
       required_tools_passed = True \<rparr>"

text \<open>
  A scan-results directory whose \<^verbatim>\<open>analysis.json\<close> itself reports tool results, with
  one finding in \<^verbatim>\<open>vulnerabilities.json\<close> and one unreadable SARIF file.
\<close>

definition example_scan_dir :: scan_results_directory where
  "example_scan_dir =
     \<lparr> vulnerability_analysis =
         Some \<lparr> vulnerabilities_json = Some (Parsed [example_finding ''low'' ''Verbose log'']),
                analysis_json =
                  Some (Parsed (JObj [(''tool_results'',
                                       JObj [(''CodeQL'', JStr ''passed''),
                                             (''Grype'', JStr ''passed'')])])) \<rparr>,
       tool_dirs =
         (\<lambda>pattern. if pattern = ''codeql-results-''
                     then [\<lparr> sarif_files = [ReadError], json_files = [] \<rparr>] else []) \<rparr>"

text \<open>What the loader leaves alone: the policy and the \<^verbatim>\<open>tool_results\<close> key.\<close>

definition untouched :: "evaluator \<Rightarrow> security_gate_config \<times> (string \<rightharpoonup> string) option" where
  "untouched ev = (config ev, sr_tool_results (scan_results ev))"

text \<open>A SARIF log with two non-empty runs, one result without a reportable level.\<close>

definition example_location :: location where
  "example_location =
     \<lparr> physicalLocation =
         Some \<lparr> artifactLocation = Some \<lparr> uri = Some ''src/Editor/Graph.cs'' \<rparr>,
                region = Some \<lparr> startLine = Some 42 \<rparr> \<rparr> \<rparr>"

definition example_result_error :: sarif_result where
  "example_result_error =
     \<lparr> level = Some ''error'', ruleId = Some ''cs/sql-injection'',
       message = Some \<lparr> message_text = Some ''Query built from user input'' \<rparr>,
       locations = Some [example_location, \<lparr> physicalLocation = None \<rparr>] \<rparr>"

definition example_result_none :: sarif_result where
  "example_result_none =
     \<lparr> level = Some ''none'', ruleId = Some ''cs/style'', message = None, locations = None \<rparr>"

definition example_result_warning :: sarif_result where
  "example_result_warning =
     \<lparr> level = Some ''warning'', ruleId = None, message = None,
       locations = Some [\<lparr> physicalLocation = None \<rparr>, example_location] \<rparr>"

definition example_sarif :: sarif_log where
  "example_sarif =
     \<lparr> runs = Some [\<lparr> results = Some [example_result_error, example_result_none] \<rparr>,
                    \<lparr> results = None \<rparr>,
                    \<lparr> results = Some [example_result_warning] \<rparr>] \<rparr>"

text \<open>
  Two findings that the default allow-list suppresses: one by its CWE id, one by a
  title that contains \<^verbatim>\<open>documentation\<close> in capitals.
\<close>

definition allowed_critical :: finding where
  "allowed_critical =
     (example_finding ''critical'' ''Hard-coded test credential'')\<lparr> f_cwe_id := Some ''CWE-999'' \<rparr>"

definition allowed_by_title :: finding where
  "allowed_by_title =
     (example_finding ''high'' ''Leaked token in DOCUMENTATION sample'')
       \<lparr> f_tool := Some ''TruffleHog'', f_category := Some ''Secret Scanning'',
         f_cve_id := Some ''CVE-2024-0001'' \<rparr>"

text \<open>Three findings, two of them equal in severity.\<close>

definition tie_a :: finding where
  "tie_a = example_finding ''high'' ''Authentication bypass''"

definition tie_b :: finding where
  "tie_b = example_finding ''high'' ''Buffer overflow''"

definition medium_c :: finding where
  "medium_c = example_finding ''medium'' ''Cookie without Secure flag''"

text \<open>The local variable \<^verbatim>\<open>failed_rules\<close> of \<^verbatim>\<open>evaluate_security_gates\<close>.\<close>

abbreviation failed_results :: "metrics \<Rightarrow> rule list \<Rightarrow> rule_result list" where
  "failed_results m rs \<equiv> filter (\<lambda>r. \<not> rr_passed r) (map (\<lambda>rule. evaluate_rule rule m) rs)"

section \<open>Basic facts about rule evaluation and the gate\<close>

lemma rr_passed_mk_result [simp]: "rr_passed (mk_result rule cond p why) = p"
  by (simp add: mk_result_def)

lemma rr_reason_mk_result [simp]: "rr_reason (mk_result rule cond p why) = why"
  by (simp add: mk_result_def)

lemma bind_err_simps [simp]:
  "bind_err (Inl e) f = Inl e"
  "bind_err (Inr v) f = f v"
  by (simp_all add: bind_err_def)

lemma evaluate_rule_unrecognized:
  assumes "dict_get rule ''condition'' (JStr '''') = JStr c"
    and "\<not> sublist ''critical_count == 0'' c"
    and "\<not> sublist ''high_count <= 10'' c"
    and "\<not> sublist ''secret_count == 0'' c"
    and "\<not> sublist ''required_tools_passed'' c"
  shows "evaluate_rule rule m = mk_result rule (JStr c) True ''Rule condition not recognized''"
  using assms by (simp add: evaluate_rule_def evaluate_rule_try_def)

lemma is_allowed_vulnerability_cong:
  "allow_list cfg' = allow_list cfg \<Longrightarrow>
   is_allowed_vulnerability cfg' v = is_allowed_vulnerability cfg v"
  by (simp add: is_allowed_vulnerability_def Let_def)

lemma count_vulnerabilities_cong:
  assumes "allow_list cfg' = allow_list cfg"
  shows "count_vulnerabilities cfg' vs = count_vulnerabilities cfg vs"
proof -
  have "count_vulnerability cfg' = count_vulnerability cfg"
    by (intro ext) (simp add: count_vulnerability_def is_allowed_vulnerability_cong [OF assms])
  then show ?thesis by (simp add: count_vulnerabilities_def)
qed

lemma evaluate_required_tools_upd [simp]:
  "evaluate_required_tools (ev\<lparr>gate_status := s\<rparr>) = evaluate_required_tools ev"
  "evaluate_required_tools (ev\<lparr>gate_details := d\<rparr>) = evaluate_required_tools ev"
  "evaluate_required_tools (ev\<lparr>config := (config ev)\<lparr>policy_rules := rs\<rparr>\<rparr>) = evaluate_required_tools ev"
  by (simp_all add: evaluate_required_tools_def)

lemma count_vulnerabilities_rules [simp]:
  "count_vulnerabilities (cfg\<lparr>policy_rules := rs\<rparr>) vs = count_vulnerabilities cfg vs"
  by (rule count_vulnerabilities_cong) simp

lemma calculate_vulnerability_metrics_rules:
  "calculate_vulnerability_metrics (ev\<lparr>config := (config ev)\<lparr>policy_rules := rs\<rparr>\<rparr>)
     = calculate_vulnerability_metrics ev"
  by (simp add: calculate_vulnerability_metrics_def Let_def split: option.splits)

text \<open>The three observable parts of an evaluation, once the metrics are there.\<close>

lemma evaluate_security_gates_raised:
  "calculate_vulnerability_metrics ev = Inl e \<Longrightarrow> evaluate_security_gates now ev = (Some e, ev)"
  by (simp add: evaluate_security_gates_def)

lemma evaluate_security_gates_fst:
  assumes "calculate_vulnerability_metrics ev = Inr m"
  shows "fst (evaluate_security_gates now ev) =
     (if failed_results m (policy_rules (config ev)) = [] \<and> \<not> evaluate_required_tools ev
      then Some (KeyError ''failed_rules'') else None)"
  using assms
  by (simp add: evaluate_security_gates_def Let_def empty_details_def)

lemma evaluate_security_gates_status:
  assumes "calculate_vulnerability_metrics ev = Inr m"
  shows "gate_status (snd (evaluate_security_gates now ev)) =
     (if failed_results m (policy_rules (config ev)) = [] \<and> evaluate_required_tools ev
      then ''PASSED'' else ''FAILED'')"
  using assms
  by (simp add: evaluate_security_gates_def Let_def empty_details_def)

lemma evaluate_security_gates_failed_rules:
  assumes "calculate_vulnerability_metrics ev = Inr m"
  shows "gd_failed_rules (gate_details (snd (evaluate_security_gates now ev))) =
     (if failed_results m (policy_rules (config ev)) = [] then None
      else Some (failed_results m (policy_rules (config ev))
                 @ (if evaluate_required_tools ev then [] else [required_tools_entry])))"
  using assms
  by (simp add: evaluate_security_gates_def Let_def empty_details_def)

section \<open>Unrecognised conditions\<close>

text \<open>
  Claim C5. A rule whose condition is a string that contains none of the four
  hard-coded patterns (an absent condition counts as the empty string) evaluates to
  passed, with the reason "Rule condition not recognized". Such a rule never makes
  the gate fail by itself: inserting it anywhere into the policy's rules changes
  neither the exception raised, nor the gate status, nor the recorded failed rules.
\<close>

theorem unrecognized_condition_fails_open:
  assumes "dict_get rule ''condition'' (JStr '''') = JStr c"
    and "\<not> sublist ''critical_count == 0'' c"
    and "\<not> sublist ''high_count <= 10'' c"
    and "\<not> sublist ''secret_count == 0'' c"
    and "\<not> sublist ''required_tools_passed'' c"
  shows "rr_passed (evaluate_rule rule m)
       \<and> rr_reason (evaluate_rule rule m) = ''Rule condition not recognized''
       \<and> fst (evaluate_security_gates now (ev\<lparr>config := (config ev)\<lparr>policy_rules := rs1 @ rule # rs2\<rparr>\<rparr>))
           = fst (evaluate_security_gates now (ev\<lparr>config := (config ev)\<lparr>policy_rules := rs1 @ rs2\<rparr>\<rparr>))
       \<and> gate_status (snd (evaluate_security_gates now (ev\<lparr>config := (config ev)\<lparr>policy_rules := rs1 @ rule # rs2\<rparr>\<rparr>)))
           = gate_status (snd (evaluate_security_gates now (ev\<lparr>config := (config ev)\<lparr>policy_rules := rs1 @ rs2\<rparr>\<rparr>)))
       \<and> gd_failed_rules (gate_details (snd (evaluate_security_gates now (ev\<lparr>config := (config ev)\<lparr>policy_rules := rs1 @ rule # rs2\<rparr>\<rparr>))))
           = gd_failed_rules (gate_details (snd (evaluate_security_gates now (ev\<lparr>config := (config ev)\<lparr>policy_rules := rs1 @ rs2\<rparr>\<rparr>))))"
proof -
  let ?with = "\<lambda>rs. ev\<lparr>config := (config ev)\<lparr>policy_rules := rs\<rparr>\<rparr>"
  have pass: "\<And>m. evaluate_rule rule m = mk_result rule (JStr c) True ''Rule condition not recognized''"
    using assms by (rule evaluate_rule_unrecognized)
  have same: "\<And>m. failed_results m (rs1 @ rule # rs2) = failed_results m (rs1 @ rs2)"
    by (simp add: pass)
  have rules: "\<And>rs. policy_rules (config (?with rs)) = rs"
    by simp
  show ?thesis
  proof (cases "calculate_vulnerability_metrics ev")
    case (Inl e)
    then have "\<And>rs. evaluate_security_gates now (?with rs) = (Some e, ?with rs)"
      by (intro evaluate_security_gates_raised) (simp add: calculate_vulnerability_metrics_rules)
    then show ?thesis by (simp add: pass)
  next
    case (Inr m')
    then have calc: "\<And>rs. calculate_vulnerability_metrics (?with rs) = Inr m'"
      by (simp add: calculate_vulnerability_metrics_rules)
    show ?thesis
      by (simp only: evaluate_security_gates_fst [OF calc] evaluate_security_gates_status [OF calc]
            evaluate_security_gates_failed_rules [OF calc] rules same evaluate_required_tools_upd)
         (simp add: pass)
  qed
qed

theorem unrecognized_condition_fails_open_witness:
  "dict_get [''name'' \<mapsto> JStr ''Few medium issues'', ''condition'' \<mapsto> JStr ''medium_count <= 50'']
      ''condition'' (JStr '''') = JStr ''medium_count <= 50''
   \<and> \<not> sublist ''critical_count == 0'' ''medium_count <= 50''
   \<and> \<not> sublist ''high_count <= 10'' ''medium_count <= 50''
   \<and> \<not> sublist ''secret_count == 0'' ''medium_count <= 50''
   \<and> \<not> sublist ''required_tools_passed'' ''medium_count <= 50''
   \<and> rr_passed (evaluate_rule
        [''name'' \<mapsto> JStr ''Few medium issues'', ''condition'' \<mapsto> JStr ''medium_count <= 50'']
        (zero_metrics\<lparr>medium_count := 60\<rparr>))"
proof -
  let ?rule = "[''name'' \<mapsto> JStr ''Few medium issues'', ''condition'' \<mapsto> JStr ''medium_count <= 50'']"
  have h0: "dict_get ?rule ''condition'' (JStr '''') = JStr ''medium_count <= 50''"
    by (simp add: dict_get_def)
  have h1: "\<not> sublist ''critical_count == 0'' ''medium_count <= 50''"
    by (simp add: sublist_code(3))
  have h2: "\<not> sublist ''high_count <= 10'' ''medium_count <= 50''"
    by (simp add: sublist_code(3))
  have h3: "\<not> sublist ''secret_count == 0'' ''medium_count <= 50''"
    by (simp add: sublist_code(3))
  have h4: "\<not> sublist ''required_tools_passed'' ''medium_count <= 50''"
    by (simp add: sublist_code(3))
  from unrecognized_condition_fails_open [OF h0 h1 h2 h3 h4, of "zero_metrics\<lparr>medium_count := 60\<rparr>"]
  have "rr_passed (evaluate_rule ?rule (zero_metrics\<lparr>medium_count := 60\<rparr>))"
    by blast
  with h0 h1 h2 h3 h4 show ?thesis by blast
qed

section \<open>The high-severity rule and its threshold\<close>

lemma str_in_cases:
  obtains (err) e where "\<And>p. str_in p j = Inl (e)" | (ok) f where "\<And>p. str_in p j = Inr (f p)"
  by (cases j) auto

lemma evaluate_rule_flag [simp]:
  "evaluate_rule rule (m\<lparr>excessive_high_vulnerabilities := b\<rparr>) = evaluate_rule rule m"
  by (cases "dict_get rule ''condition'' (JStr '''')" rule: str_in_cases)
     (simp_all add: evaluate_rule_def evaluate_rule_try_def Let_def)

lemma evaluate_required_tools_thresholds [simp]:
  "evaluate_required_tools (ev\<lparr>config := (config ev)\<lparr>severity_thresholds := th\<rparr>\<rparr>) = evaluate_required_tools ev"
  by (simp add: evaluate_required_tools_def)

lemma count_vulnerabilities_thresholds [simp]:
  "count_vulnerabilities (cfg\<lparr>severity_thresholds := th\<rparr>) vs = count_vulnerabilities cfg vs"
  by (rule count_vulnerabilities_cong) simp

lemma calculate_vulnerability_metrics_threshold:
  assumes "calculate_vulnerability_metrics ev = Inr m"
  shows "calculate_vulnerability_metrics
           (ev\<lparr>config := (config ev)\<lparr>severity_thresholds := (severity_thresholds (config ev))(''high'' \<mapsto> t)\<rparr>\<rparr>)
         = Inr (m\<lparr>excessive_high_vulnerabilities := (int (high_count m) > t)\<rparr>)"
  using assms
  by (auto simp add: calculate_vulnerability_metrics_def Let_def split: option.splits)

lemma evaluate_rule_high:
  assumes "dict_get rule ''condition'' (JStr '''') = JStr c"
    and "\<not> sublist ''critical_count == 0'' c"
    and "sublist ''high_count <= 10'' c"
  shows "evaluate_rule rule m = mk_result rule (JStr c) (high_count m \<le> 10)
           (if \<not> high_count m \<le> 10
            then ''High severity count ('' @ str_nat (high_count m) @ '') exceeds threshold (10)''
            else ''High severity within limits'')"
  using assms by (simp add: evaluate_rule_def evaluate_rule_try_def Let_def)

lemma evaluate_rule_not_high:
  assumes "dict_get rule ''condition'' (JStr '''') = JStr c"
    and "\<not> sublist ''high_count <= 10'' c"
  shows "evaluate_rule rule (m\<lparr>high_count := h\<rparr>) = evaluate_rule rule m"
  using assms by (simp add: evaluate_rule_def evaluate_rule_try_def Let_def)

text \<open>
  Claim C8. Conditions are matched by substring containment against hard-coded
  patterns. A string condition that contains \<^verbatim>\<open>high_count <= 10\<close> (and not the
  pattern of the critical rule, which the chain tests first) is evaluated as
  \<^verbatim>\<open>high_count <= 10\<close>, the constant; a condition without that text never
  consults \<^verbatim>\<open>high_count\<close>. No rule reads the flag derived from
  \<^verbatim>\<open>severity_thresholds['high']\<close>, and changing that threshold changes neither the
  exception raised, nor the gate status, nor the failed rules.
\<close>

theorem high_rule_uses_constant_ten:
  assumes "dict_get rule ''condition'' (JStr '''') = JStr c"
  shows "(\<not> sublist ''critical_count == 0'' c \<and> sublist ''high_count <= 10'' c \<longrightarrow>
            rr_passed (evaluate_rule rule m) = (high_count m \<le> 10))
       \<and> (\<not> sublist ''high_count <= 10'' c \<longrightarrow>
            evaluate_rule rule (m\<lparr>high_count := h\<rparr>) = evaluate_rule rule m)
       \<and> evaluate_rule rule (m\<lparr>excessive_high_vulnerabilities := b\<rparr>) = evaluate_rule rule m
       \<and> (severity_thresholds (config ev) ''high'' \<noteq> None \<longrightarrow>
            fst (evaluate_security_gates now
                  (ev\<lparr>config := (config ev)\<lparr>severity_thresholds := (severity_thresholds (config ev))(''high'' \<mapsto> t)\<rparr>\<rparr>))
              = fst (evaluate_security_gates now ev)
          \<and> gate_status (snd (evaluate_security_gates now
                  (ev\<lparr>config := (config ev)\<lparr>severity_thresholds := (severity_thresholds (config ev))(''high'' \<mapsto> t)\<rparr>\<rparr>)))
              = gate_status (snd (evaluate_security_gates now ev))
          \<and> gd_failed_rules (gate_details (snd (evaluate_security_gates now
                  (ev\<lparr>config := (config ev)\<lparr>severity_thresholds := (severity_thresholds (config ev))(''high'' \<mapsto> t)\<rparr>\<rparr>))))
              = gd_failed_rules (gate_details (snd (evaluate_security_gates now ev))))"
proof (intro conjI impI)
  assume "\<not> sublist ''critical_count == 0'' c \<and> sublist ''high_count <= 10'' c"
  then show "rr_passed (evaluate_rule rule m) = (high_count m \<le> 10)"
    using assms by (simp add: evaluate_rule_high)
next
  assume "\<not> sublist ''high_count <= 10'' c"
  then show "evaluate_rule rule (m\<lparr>high_count := h\<rparr>) = evaluate_rule rule m"
    using assms by (rule evaluate_rule_not_high [rotated])
next
  show "evaluate_rule rule (m\<lparr>excessive_high_vulnerabilities := b\<rparr>) = evaluate_rule rule m"
    by simp
next
  let ?ev' = "ev\<lparr>config := (config ev)\<lparr>severity_thresholds := (severity_thresholds (config ev))(''high'' \<mapsto> t)\<rparr>\<rparr>"
  assume "severity_thresholds (config ev) ''high'' \<noteq> None"
  then obtain m0 where calc: "calculate_vulnerability_metrics ev = Inr m0"
    by (auto simp add: calculate_vulnerability_metrics_def Let_def)
  note calc' = calculate_vulnerability_metrics_threshold [OF calc, of t]
  have rules: "policy_rules (config ?ev') = policy_rules (config ev)" by simp
  show "fst (evaluate_security_gates now ?ev') = fst (evaluate_security_gates now ev)"
    by (simp only: evaluate_security_gates_fst [OF calc] evaluate_security_gates_fst [OF calc']
          rules evaluate_rule_flag evaluate_required_tools_thresholds)
  show "gate_status (snd (evaluate_security_gates now ?ev')) = gate_status (snd (evaluate_security_gates now ev))"
    by (simp only: evaluate_security_gates_status [OF calc] evaluate_security_gates_status [OF calc']
          rules evaluate_rule_flag evaluate_required_tools_thresholds)
  show "gd_failed_rules (gate_details (snd (evaluate_security_gates now ?ev')))
      = gd_failed_rules (gate_details (snd (evaluate_security_gates now ev)))"
    by (simp only: evaluate_security_gates_failed_rules [OF calc] evaluate_security_gates_failed_rules [OF calc']
          rules evaluate_rule_flag evaluate_required_tools_thresholds)
qed

theorem high_rule_uses_constant_ten_witness:
  "dict_get [''condition'' \<mapsto> JStr ''high_count <= 100''] ''condition'' (JStr '''') = JStr ''high_count <= 100''
   \<and> \<not> sublist ''critical_count == 0'' ''high_count <= 100''
   \<and> sublist ''high_count <= 10'' ''high_count <= 100''
   \<and> \<not> rr_passed (evaluate_rule [''condition'' \<mapsto> JStr ''high_count <= 100''] (zero_metrics\<lparr>high_count := 50\<rparr>))
   \<and> severity_thresholds (config (init_evaluator get_default_policy)) ''high'' \<noteq> None
   \<and> gate_status (snd (evaluate_security_gates ''t''
        ((init_evaluator get_default_policy)
           \<lparr>config := (config (init_evaluator get_default_policy))
              \<lparr>severity_thresholds := (severity_thresholds (config (init_evaluator get_default_policy)))(''high'' \<mapsto> 100)\<rparr>\<rparr>)))
      = gate_status (snd (evaluate_security_gates ''t'' (init_evaluator get_default_policy)))"
proof -
  let ?rule = "[''condition'' \<mapsto> JStr ''high_count <= 100'']"
  have h0: "dict_get ?rule ''condition'' (JStr '''') = JStr ''high_count <= 100''"
    by (simp add: dict_get_def)
  have h1: "\<not> sublist ''critical_count == 0'' ''high_count <= 100''"
    by (simp add: sublist_code(3))
  have h2: "sublist ''high_count <= 10'' ''high_count <= 100''"
    by (simp add: sublist_code(3))
  have h3: "severity_thresholds (config (init_evaluator get_default_policy)) ''high'' \<noteq> None"
    by (simp add: init_evaluator_def get_default_policy_def)
  note inst = high_rule_uses_constant_ten [OF h0, of "zero_metrics\<lparr>high_count := 50\<rparr>" _ _
      "init_evaluator get_default_policy" "''t''" 100]
  from inst h1 h2 have "rr_passed (evaluate_rule ?rule (zero_metrics\<lparr>high_count := 50\<rparr>))
      = (high_count (zero_metrics\<lparr>high_count := 50\<rparr>) \<le> 10)"
    by blast
  then have c1: "\<not> rr_passed (evaluate_rule ?rule (zero_metrics\<lparr>high_count := 50\<rparr>))"
    by (simp add: zero_metrics_def)
  from inst h3 have c2: "gate_status (snd (evaluate_security_gates ''t''
        ((init_evaluator get_default_policy)
           \<lparr>config := (config (init_evaluator get_default_policy))
              \<lparr>severity_thresholds := (severity_thresholds (config (init_evaluator get_default_policy)))(''high'' \<mapsto> 100)\<rparr>\<rparr>)))
      = gate_status (snd (evaluate_security_gates ''t'' (init_evaluator get_default_policy)))"
    by blast
  from h0 h1 h2 h3 c1 c2 show ?thesis by blast
qed

section \<open>Malformed rules\<close>

lemma evaluate_rule_raised:
  assumes "evaluate_rule_try rule m = Inl e"
  shows "evaluate_rule rule m =
     mk_result rule (dict_get rule ''condition'' (JStr '''')) False
       (''Evaluation error: '' @ str_of_error e)"
  using assms by (simp add: evaluate_rule_def)

lemma evaluate_rule_try_raises_iff:
  "(\<exists>e. evaluate_rule_try rule m = Inl e) \<longleftrightarrow>
   (case rule ''condition'' of
      None \<Rightarrow> False
    | Some (JStr s) \<Rightarrow> False
    | Some (JList xs) \<Rightarrow> False
    | Some (JObj kvs) \<Rightarrow> False
    | Some j \<Rightarrow> True)"
proof (cases "rule ''condition''")
  case None
  then show ?thesis
    by (simp add: evaluate_rule_try_def dict_get_def Let_def)
next
  case (Some j)
  then show ?thesis
    by (cases j) (simp_all add: evaluate_rule_try_def dict_get_def Let_def)
qed

lemma failed_results_member:
  assumes "rule \<in> set rs" and "\<not> rr_passed (evaluate_rule rule m)"
  shows "evaluate_rule rule m \<in> set (failed_results m rs)"
  using assms by auto

text \<open>
  Claim C4, as the code has it. A rule without a \<^verbatim>\<open>condition\<close> key is evaluated
  with the empty string as its condition: no pattern matches and the rule passes with
  the reason "Rule condition not recognized" (it fails open). Evaluating a condition
  raises exactly when the condition is present and is not a string, a list or a
  dictionary; the rule's result then has \<^verbatim>\<open>passed = False\<close> and the reason
  "Evaluation error: " followed by the exception text, and, when the metrics were
  computed, the gate returns with status FAILED and that result among the failed
  rules.
\<close>

theorem malformed_rule_outcome:
  "(rule ''condition'' = None \<longrightarrow>
      evaluate_rule rule m = mk_result rule (JStr '''') True ''Rule condition not recognized'')
   \<and> ((\<exists>e. evaluate_rule_try rule m = Inl e) \<longleftrightarrow>
        (case rule ''condition'' of
           None \<Rightarrow> False
         | Some (JStr s) \<Rightarrow> False
         | Some (JList xs) \<Rightarrow> False
         | Some (JObj kvs) \<Rightarrow> False
         | Some j \<Rightarrow> True))
   \<and> (evaluate_rule_try rule m = Inl e \<longrightarrow>
        \<not> rr_passed (evaluate_rule rule m)
        \<and> rr_reason (evaluate_rule rule m) = ''Evaluation error: '' @ str_of_error e)
   \<and> (evaluate_rule_try rule m = Inl e \<and> rule \<in> set (policy_rules (config ev))
        \<and> calculate_vulnerability_metrics ev = Inr m \<longrightarrow>
        fst (evaluate_security_gates now ev) = None
        \<and> gate_status (snd (evaluate_security_gates now ev)) = ''FAILED''
        \<and> (\<exists>rs. gd_failed_rules (gate_details (snd (evaluate_security_gates now ev))) = Some rs
                 \<and> evaluate_rule rule m \<in> set rs))"
proof (intro conjI impI)
  assume "rule ''condition'' = None"
  then show "evaluate_rule rule m = mk_result rule (JStr '''') True ''Rule condition not recognized''"
    by (simp add: evaluate_rule_def evaluate_rule_try_def dict_get_def Let_def)
next
  show "(\<exists>e. evaluate_rule_try rule m = Inl e) \<longleftrightarrow>
        (case rule ''condition'' of
           None \<Rightarrow> False
         | Some (JStr s) \<Rightarrow> False
         | Some (JList xs) \<Rightarrow> False
         | Some (JObj kvs) \<Rightarrow> False
         | Some j \<Rightarrow> True)"
    by (rule evaluate_rule_try_raises_iff)
next
  assume "evaluate_rule_try rule m = Inl e"
  then show "\<not> rr_passed (evaluate_rule rule m)"
    and "rr_reason (evaluate_rule rule m) = ''Evaluation error: '' @ str_of_error e"
    by (simp_all add: evaluate_rule_raised)
next
  assume a: "evaluate_rule_try rule m = Inl e \<and> rule \<in> set (policy_rules (config ev))
        \<and> calculate_vulnerability_metrics ev = Inr m"
  then have calc: "calculate_vulnerability_metrics ev = Inr m" by simp
  from a have "\<not> rr_passed (evaluate_rule rule m)"
    by (simp add: evaluate_rule_raised)
  with a have mem: "evaluate_rule rule m \<in> set (failed_results m (policy_rules (config ev)))"
    by (intro failed_results_member) simp_all
  then have ne: "failed_results m (policy_rules (config ev)) \<noteq> []"
    by (metis empty_iff empty_set)
  show "fst (evaluate_security_gates now ev) = None"
    by (simp only: evaluate_security_gates_fst [OF calc]) (simp add: ne)
  show "gate_status (snd (evaluate_security_gates now ev)) = ''FAILED''"
    by (simp only: evaluate_security_gates_status [OF calc]) (simp add: ne)
  show "\<exists>rs. gd_failed_rules (gate_details (snd (evaluate_security_gates now ev))) = Some rs
                 \<and> evaluate_rule rule m \<in> set rs"
    using mem ne by (simp only: evaluate_security_gates_failed_rules [OF calc]) auto
qed

lemma calculate_no_findings:
  "severity_thresholds cfg ''high'' = Some t \<Longrightarrow>
   calculate_vulnerability_metrics (init_evaluator cfg) =
     Inr (zero_metrics\<lparr>excessive_high_vulnerabilities := (0 > t),
            required_tools_passed := evaluate_required_tools (init_evaluator cfg)\<rparr>)"
  by (simp add: calculate_vulnerability_metrics_def init_evaluator_def count_vulnerabilities_def
        zero_counters_def zero_metrics_def count_of_def)

lemma tools_policy_with_rules:
  "evaluate_required_tools (init_evaluator (policy_with_rules rs))"
  by (simp add: evaluate_required_tools_def init_evaluator_def policy_with_rules_def get_or_def)

lemma calculate_policy_with_rules:
  "calculate_vulnerability_metrics (init_evaluator (policy_with_rules rs)) = Inr zero_metrics"
proof -
  have th: "severity_thresholds (policy_with_rules rs) ''high'' = Some 5"
    by (simp add: policy_with_rules_def)
  show ?thesis
    by (simp add: calculate_no_findings [OF th] tools_policy_with_rules zero_metrics_def)
qed

theorem malformed_rule_outcome_witness:
  "rule_without_condition ''condition'' = None
   \<and> rr_passed (evaluate_rule rule_without_condition zero_metrics)
   \<and> evaluate_rule_try rule_with_number zero_metrics
        = Inl (TypeError (''argument of type '' @ quote ''int'' @ '' is not iterable''))
   \<and> \<not> rr_passed (evaluate_rule rule_with_number zero_metrics)
   \<and> rule_with_number \<in> set (policy_rules (config (init_evaluator (policy_with_rules [rule_with_number]))))
   \<and> calculate_vulnerability_metrics (init_evaluator (policy_with_rules [rule_with_number])) = Inr zero_metrics
   \<and> gate_status (snd (evaluate_security_gates ''t'' (init_evaluator (policy_with_rules [rule_with_number]))))
        = ''FAILED''"
proof -
  let ?ev = "init_evaluator (policy_with_rules [rule_with_number])"
  let ?e = "TypeError (''argument of type '' @ quote ''int'' @ '' is not iterable'')"
  have h1: "rule_without_condition ''condition'' = None"
    by (simp add: rule_without_condition_def)
  have h2: "evaluate_rule_try rule_with_number zero_metrics = Inl ?e"
    by (simp add: evaluate_rule_try_def rule_with_number_def dict_get_def)
  have h3: "rule_with_number \<in> set (policy_rules (config ?ev))"
    by (simp add: init_evaluator_def policy_with_rules_def)
  have h4: "calculate_vulnerability_metrics ?ev = Inr zero_metrics"
    by (rule calculate_policy_with_rules)
  note a = malformed_rule_outcome [of rule_without_condition zero_metrics]
  note b = malformed_rule_outcome [of rule_with_number zero_metrics ?e ?ev "''t''"]
  from a h1 have c1: "rr_passed (evaluate_rule rule_without_condition zero_metrics)"
    by simp
  from b h2 have c2: "\<not> rr_passed (evaluate_rule rule_with_number zero_metrics)"
    by blast
  from b h2 h3 h4 have c3: "gate_status (snd (evaluate_security_gates ''t'' ?ev)) = ''FAILED''"
    by blast
  from h1 h2 h3 h4 c1 c2 c3 show ?thesis by blast
qed

text \<open>
  The claim as stated fails for a rule without a \<^verbatim>\<open>condition\<close> key: the result is
  passed, and a policy made of that rule alone yields PASSED.
\<close>

theorem rule_without_condition_counterexample:
  "rule_without_condition ''condition'' = None
   \<and> rr_passed (evaluate_rule rule_without_condition zero_metrics)
   \<and> rr_reason (evaluate_rule rule_without_condition zero_metrics) = ''Rule condition not recognized''
   \<and> evaluate_security_gates ''t'' (init_evaluator (policy_with_rules [rule_without_condition]))
       = (None, (init_evaluator (policy_with_rules [rule_without_condition]))
           \<lparr> gate_status := ''PASSED'',
             gate_details := empty_details
               \<lparr> gd_status := Some ''PASSED'',
                 gd_passed_rules := Some [JStr ''Unfinished rule''],
                 gd_metrics := Some zero_metrics,
                 gd_timestamp := Some ''t'' \<rparr> \<rparr>)"
proof -
  let ?ev = "init_evaluator (policy_with_rules [rule_without_condition])"
  have r: "evaluate_rule rule_without_condition zero_metrics
      = mk_result rule_without_condition (JStr '''') True ''Rule condition not recognized''"
    by (simp add: evaluate_rule_def evaluate_rule_try_def rule_without_condition_def dict_get_def)
  have calc: "calculate_vulnerability_metrics ?ev = Inr zero_metrics"
    by (rule calculate_policy_with_rules)
  have rules: "policy_rules (config ?ev) = [rule_without_condition]"
    by (simp add: init_evaluator_def policy_with_rules_def)
  have name: "rr_name (mk_result rule_without_condition (JStr '''') True ''Rule condition not recognized'')
      = JStr ''Unfinished rule''"
    by (simp add: mk_result_def rule_without_condition_def dict_get_def)
  have "evaluate_security_gates ''t'' ?ev
       = (None, ?ev
           \<lparr> gate_status := ''PASSED'',
             gate_details := empty_details
               \<lparr> gd_status := Some ''PASSED'',
                 gd_passed_rules := Some [JStr ''Unfinished rule''],
                 gd_metrics := Some zero_metrics,
                 gd_timestamp := Some ''t'' \<rparr> \<rparr>)"
    by (simp add: evaluate_security_gates_def calc rules r name tools_policy_with_rules Let_def)
  moreover have "rule_without_condition ''condition'' = None"
    by (simp add: rule_without_condition_def)
  ultimately show ?thesis
    by (simp add: r)
qed

section \<open>What decides the gate status\<close>

lemma calculate_required_tools_passed:
  "calculate_vulnerability_metrics ev = Inr m \<Longrightarrow> required_tools_passed m = evaluate_required_tools ev"
  by (auto simp add: calculate_vulnerability_metrics_def Let_def split: option.splits)

lemma default_rules_failed:
  "failed_results m (policy_rules get_default_policy) = [] \<longleftrightarrow>
     critical_count m = 0 \<and> high_count m \<le> 10 \<and> secret_count m = 0 \<and> required_tools_passed m"
  by (simp add: get_default_policy_def evaluate_rule_def evaluate_rule_try_def dict_get_def
        sublist_code(3) Let_def)

lemma failed_results_empty_iff:
  "failed_results m rs = [] \<longleftrightarrow> (\<forall>rule \<in> set rs. rr_passed (evaluate_rule rule m))"
  by (auto simp add: filter_empty_conv)

text \<open>
  Claim C1, as the code has it. With the metrics computed: if some rule of the policy
  evaluates to not-passed, the evaluation returns with status FAILED; if every rule
  evaluates to passed and the required tools passed, it returns with status PASSED.
  What a rule tests is fixed by the hard-coded pattern its condition contains, so
  with the four rules of the default policy the evaluation always returns, and the
  status is PASSED exactly when \<^verbatim>\<open>critical_count == 0\<close>, \<^verbatim>\<open>high_count <= 10\<close> (the
  constant, not the configured threshold), \<^verbatim>\<open>secret_count == 0\<close> and all required
  tools passed, and FAILED otherwise.
\<close>

theorem gate_status_decided_by_rules:
  assumes "calculate_vulnerability_metrics ev = Inr m"
  shows "((\<exists>rule \<in> set (policy_rules (config ev)). \<not> rr_passed (evaluate_rule rule m)) \<longrightarrow>
            fst (evaluate_security_gates now ev) = None
            \<and> gate_status (snd (evaluate_security_gates now ev)) = ''FAILED'')
       \<and> ((\<forall>rule \<in> set (policy_rules (config ev)). rr_passed (evaluate_rule rule m))
            \<and> evaluate_required_tools ev \<longrightarrow>
            fst (evaluate_security_gates now ev) = None
            \<and> gate_status (snd (evaluate_security_gates now ev)) = ''PASSED'')
       \<and> (policy_rules (config ev) = policy_rules get_default_policy \<longrightarrow>
            fst (evaluate_security_gates now ev) = None
            \<and> gate_status (snd (evaluate_security_gates now ev)) =
                (if critical_count m = 0 \<and> high_count m \<le> 10 \<and> secret_count m = 0
                    \<and> evaluate_required_tools ev
                 then ''PASSED'' else ''FAILED''))"
proof (intro conjI impI)
  assume "\<exists>rule \<in> set (policy_rules (config ev)). \<not> rr_passed (evaluate_rule rule m)"
  then have ne: "failed_results m (policy_rules (config ev)) \<noteq> []"
    by (simp only: failed_results_empty_iff) blast
  show "fst (evaluate_security_gates now ev) = None"
    by (simp only: evaluate_security_gates_fst [OF assms]) (simp add: ne)
  show "gate_status (snd (evaluate_security_gates now ev)) = ''FAILED''"
    by (simp only: evaluate_security_gates_status [OF assms]) (simp add: ne)
next
  assume a: "(\<forall>rule \<in> set (policy_rules (config ev)). rr_passed (evaluate_rule rule m))
            \<and> evaluate_required_tools ev"
  then have e: "failed_results m (policy_rules (config ev)) = []"
    by (simp only: failed_results_empty_iff) blast
  show "fst (evaluate_security_gates now ev) = None"
    using a by (simp only: evaluate_security_gates_fst [OF assms]) (simp add: e)
  show "gate_status (snd (evaluate_security_gates now ev)) = ''PASSED''"
    using a by (simp only: evaluate_security_gates_status [OF assms]) (simp add: e)
next
  assume d: "policy_rules (config ev) = policy_rules get_default_policy"
  note t = calculate_required_tools_passed [OF assms]
  show "fst (evaluate_security_gates now ev) = None"
    by (simp only: evaluate_security_gates_fst [OF assms] d default_rules_failed t) simp
  show "gate_status (snd (evaluate_security_gates now ev)) =
                (if critical_count m = 0 \<and> high_count m \<le> 10 \<and> secret_count m = 0
                    \<and> evaluate_required_tools ev
                 then ''PASSED'' else ''FAILED'')"
    by (simp only: evaluate_security_gates_status [OF assms] d default_rules_failed t) simp
qed

lemma is_allowed_empty_list:
  "allow_list cfg = [] \<Longrightarrow> \<not> is_allowed_vulnerability cfg v"
  by (simp add: is_allowed_vulnerability_def Let_def)

lemma seven_high_metrics_eq:
  "calculate_vulnerability_metrics seven_high = Inr seven_high_metrics"
proof -
  have al: "allow_list (policy_with_rules (policy_rules get_default_policy)) = []"
    by (simp add: policy_with_rules_def)
  have step: "\<And>c. count_vulnerability (policy_with_rules (policy_rules get_default_policy)) c
                  (example_finding ''high'' ''XSS'')
      = \<lparr> severity_counts = incr ''high'' (severity_counts c),
          tool_cnts = incr ''unknown'' (tool_cnts c),
          category_cnts = incr ''unknown'' (category_cnts c),
          secret_cnt = secret_cnt c, cve_cnt = cve_cnt c \<rparr>"
    by (simp add: count_vulnerability_def is_allowed_empty_list [OF al] example_finding_def
          get_or_def truthy_str_def)
  have cnt: "count_vulnerabilities (policy_with_rules (policy_rules get_default_policy))
               (vulnerabilities seven_high)
      = \<lparr> severity_counts = [(''high'', 7)], tool_cnts = [(''unknown'', 7)],
          category_cnts = [(''unknown'', 7)], secret_cnt = 0, cve_cnt = 0 \<rparr>"
    by (simp add: count_vulnerabilities_def seven_high_def step zero_counters_def)
  have cfg: "config seven_high = policy_with_rules (policy_rules get_default_policy)"
    by (simp add: seven_high_def init_evaluator_def)
  have th: "severity_thresholds (config seven_high) ''high'' = Some 5"
    by (simp add: cfg policy_with_rules_def)
  have tools: "evaluate_required_tools seven_high"
    by (simp add: evaluate_required_tools_def cfg policy_with_rules_def seven_high_def
          init_evaluator_def get_or_def)
  have tot: "length (filter (\<lambda>v. \<not> get_or (f_is_false_positive v) False) (vulnerabilities seven_high)) = 7"
    by (simp add: seven_high_def example_finding_def get_or_def)
  show ?thesis
    by (simp add: calculate_vulnerability_metrics_def cfg [symmetric] cnt [unfolded cfg [symmetric]]
          th tools tot seven_high_metrics_def count_of_def)
qed

theorem gate_status_decided_by_rules_witness:
  "calculate_vulnerability_metrics seven_high = Inr seven_high_metrics
   \<and> list_all (\<lambda>rule. rr_passed (evaluate_rule rule seven_high_metrics))
        (policy_rules (config seven_high))
   \<and> evaluate_required_tools seven_high
   \<and> policy_rules (config seven_high) = policy_rules get_default_policy
   \<and> fst (evaluate_security_gates ''t'' seven_high) = None
   \<and> gate_status (snd (evaluate_security_gates ''t'' seven_high)) = ''PASSED''
   \<and> calculate_vulnerability_metrics (init_evaluator (policy_with_rules [rule_with_number])) = Inr zero_metrics
   \<and> (\<exists>rule \<in> set (policy_rules (config (init_evaluator (policy_with_rules [rule_with_number])))).
         \<not> rr_passed (evaluate_rule rule zero_metrics))
   \<and> gate_status (snd (evaluate_security_gates ''t'' (init_evaluator (policy_with_rules [rule_with_number]))))
        = ''FAILED''"
proof -
  have d: "policy_rules (config seven_high) = policy_rules get_default_policy"
    by (simp add: seven_high_def init_evaluator_def policy_with_rules_def)
  have tools: "evaluate_required_tools seven_high"
    by (simp add: evaluate_required_tools_def policy_with_rules_def seven_high_def
          init_evaluator_def get_or_def)
  have e: "failed_results seven_high_metrics (policy_rules get_default_policy) = []"
    by (simp only: default_rules_failed) (simp add: seven_high_metrics_def)
  then have allp: "\<forall>rule \<in> set (policy_rules (config seven_high)). rr_passed (evaluate_rule rule seven_high_metrics)"
    by (simp only: d failed_results_empty_iff)
  note inst = gate_status_decided_by_rules [OF seven_high_metrics_eq, of "''t''"]
  from inst allp tools have r: "fst (evaluate_security_gates ''t'' seven_high) = None
            \<and> gate_status (snd (evaluate_security_gates ''t'' seven_high)) = ''PASSED''"
    by blast
  let ?ev = "init_evaluator (policy_with_rules [rule_with_number])"
  have "\<not> rr_passed (evaluate_rule rule_with_number zero_metrics)"
    by (simp add: evaluate_rule_def evaluate_rule_try_def rule_with_number_def dict_get_def)
  then have ex: "\<exists>rule \<in> set (policy_rules (config ?ev)). \<not> rr_passed (evaluate_rule rule zero_metrics)"
    by (simp add: init_evaluator_def policy_with_rules_def)
  note inst2 = gate_status_decided_by_rules [OF calculate_policy_with_rules, of "[rule_with_number]" "''t''"]
  from inst2 ex have r2: "gate_status (snd (evaluate_security_gates ''t'' ?ev)) = ''FAILED''"
    by blast
  from allp have allp': "list_all (\<lambda>rule. rr_passed (evaluate_rule rule seven_high_metrics))
        (policy_rules (config seven_high))"
    by (simp only: list_all_iff)
  from seven_high_metrics_eq allp' tools d r calculate_policy_with_rules [of "[rule_with_number]"] ex r2
  show ?thesis by blast
qed

text \<open>
  The claim as stated fails: the policy below configures the high threshold 5 and
  has all four default rules, the findings hold 7 of high severity, and the gate
  passes, because the rule compares with the constant 10.
\<close>

theorem gate_status_counterexample:
  "severity_thresholds (config seven_high) ''high'' = Some 5
   \<and> calculate_vulnerability_metrics seven_high = Inr seven_high_metrics
   \<and> high_count seven_high_metrics = 7
   \<and> \<not> (gate_status (snd (evaluate_security_gates ''t'' seven_high)) = ''PASSED''
          \<longleftrightarrow> critical_count seven_high_metrics = 0
               \<and> int (high_count seven_high_metrics) \<le> 5
               \<and> secret_count seven_high_metrics = 0
               \<and> evaluate_required_tools seven_high)"
proof -
  have th: "severity_thresholds (config seven_high) ''high'' = Some 5"
    by (simp add: seven_high_def init_evaluator_def policy_with_rules_def)
  have d: "policy_rules (config seven_high) = policy_rules get_default_policy"
    by (simp add: seven_high_def init_evaluator_def policy_with_rules_def)
  have tools: "evaluate_required_tools seven_high"
    by (simp add: evaluate_required_tools_def policy_with_rules_def seven_high_def
          init_evaluator_def get_or_def)
  have e: "failed_results seven_high_metrics (policy_rules get_default_policy) = []"
    by (simp only: default_rules_failed) (simp add: seven_high_metrics_def)
  have p: "gate_status (snd (evaluate_security_gates ''t'' seven_high)) = ''PASSED''"
    by (simp only: evaluate_security_gates_status [OF seven_high_metrics_eq] d e tools) simp
  have h: "high_count seven_high_metrics = 7"
    by (simp add: seven_high_metrics_def)
  show ?thesis
    using th seven_high_metrics_eq p h by simp
qed

section \<open>The required-tools check after a passing policy\<close>

lemma load_gate_policy_three_rules:
  "load_gate_policy (Some (Parsed policy_file_three_rules)) =
     get_default_policy\<lparr>policy_rules := butlast (policy_rules get_default_policy)\<rparr>"
  by (simp add: load_gate_policy_def policy_file_three_rules_def get_or_def)

lemma load_empty_scan_dir:
  "load_scan_results empty_scan_dir ev = ev"
  by (simp add: load_scan_results_def load_tool_results_def empty_scan_dir_def tool_dir_patterns_def)

lemma three_rules_failed:
  "failed_results m (butlast (policy_rules get_default_policy)) = [] \<longleftrightarrow>
     critical_count m = 0 \<and> high_count m \<le> 10 \<and> secret_count m = 0"
  by (simp add: get_default_policy_def evaluate_rule_def evaluate_rule_try_def dict_get_def
        sublist_code(3) Let_def)

lemma default_tools_not_passed:
  "tool_requirements (config ev) = tool_requirements get_default_policy \<Longrightarrow>
   sr_tool_results (scan_results ev) = None \<Longrightarrow> \<not> evaluate_required_tools ev"
  by (simp add: evaluate_required_tools_def get_default_policy_def get_or_def dict_get_def)

text \<open>A policy without a \<^verbatim>\<open>high\<close> threshold stops the evaluation before any rule is looked at.\<close>

lemma missing_high_threshold_raises:
  "severity_thresholds (config ev) ''high'' = None \<Longrightarrow>
   evaluate_security_gates now ev = (Some (KeyError ''high''), ev)"
  by (simp add: evaluate_security_gates_def calculate_vulnerability_metrics_def)

text \<open>
  Claim C3 fails on the code. The policy file below is the default policy without
  its rule on required tools; the scan-results directory is empty. Every rule
  passes, so \<^verbatim>\<open>gate_details\<close> is built by the PASSED branch and has no
  \<^verbatim>\<open>failed_rules\<close> key; the required tools CodeQL and Grype did not pass, and the
  statement that appends to \<^verbatim>\<open>gate_details['failed_rules']\<close> raises a
  \<^verbatim>\<open>KeyError\<close>. No gate decision is produced: \<^verbatim>\<open>main\<close> reports ERROR.
\<close>

theorem required_tools_failure_raises:
  "fst (evaluate_security_gates (evaluation_time example_clock)
          (load_scan_results empty_scan_dir
             (init_evaluator (load_gate_policy (Some (Parsed policy_file_three_rules))))))
     = Some (KeyError ''failed_rules'')
   \<and> main (Some (Parsed policy_file_three_rules)) empty_scan_dir example_clock
     = (''SECURITY_GATE_STATUS=ERROR'', 1)"
proof -
  let ?cfg = "get_default_policy\<lparr>policy_rules := butlast (policy_rules get_default_policy)\<rparr>"
  let ?ev = "init_evaluator ?cfg"
  have th: "severity_thresholds ?cfg ''high'' = Some 10"
    by (simp add: get_default_policy_def)
  note calc = calculate_no_findings [OF th]
  have rules: "policy_rules (config ?ev) = butlast (policy_rules get_default_policy)"
    by (simp add: init_evaluator_def)
  have tools: "\<not> evaluate_required_tools ?ev"
    by (rule default_tools_not_passed) (simp_all add: init_evaluator_def)
  have raised: "fst (evaluate_security_gates now ?ev) = Some (KeyError ''failed_rules'')" for now
    by (simp only: evaluate_security_gates_fst [OF calc] rules three_rules_failed tools)
       (simp add: zero_metrics_def)
  then obtain ev' where "evaluate_security_gates (evaluation_time example_clock) ?ev
      = (Some (KeyError ''failed_rules''), ev')"
    by (metis prod.collapse)
  then have "main (Some (Parsed policy_file_three_rules)) empty_scan_dir example_clock
     = (''SECURITY_GATE_STATUS=ERROR'', 1)"
    by (simp add: main_def load_gate_policy_three_rules load_empty_scan_dir)
  with raised show ?thesis
    by (simp add: load_gate_policy_three_rules load_empty_scan_dir)
qed

section \<open>The tool results are never loaded\<close>

lemma foldl_preserves:
  assumes "\<And>s x. g (f s x) = g s"
  shows "g (foldl f s xs) = g s"
  by (induction xs arbitrary: s) (simp_all add: assms)

lemma untouched_append_vulnerability:
  "untouched (append_vulnerability ev item) = untouched ev"
  by (simp add: untouched_def append_vulnerability_def create_vulnerability_from_data_def)

lemma untouched_load_vulnerability_analysis:
  "untouched (load_vulnerability_analysis d ev) = untouched ev"
proof -
  have a: "untouched (foldl append_vulnerability ev items) = untouched ev" for items
    by (rule foldl_preserves) (rule untouched_append_vulnerability)
  have b: "untouched (e\<lparr>scan_results := (scan_results e)\<lparr>sr_analysis := x\<rparr>\<rparr>) = untouched e" for e x
    by (simp add: untouched_def)
  show ?thesis
    by (simp add: load_vulnerability_analysis_def Let_def a b
          split: option.splits file_read.splits)
qed

lemma untouched_extend_vulnerabilities:
  "untouched (extend_vulnerabilities ev found) = untouched ev"
  by (simp add: untouched_def extend_vulnerabilities_def)

lemma untouched_load_sarif_file:
  "untouched (load_sarif_file tool_name ev f) = untouched ev"
  by (simp add: load_sarif_file_def untouched_extend_vulnerabilities split: file_read.splits)

lemma untouched_load_json_file:
  "untouched (load_json_file ev f) = untouched ev"
  by (simp add: load_json_file_def untouched_extend_vulnerabilities split: file_read.splits)

lemma untouched_process_tool_directory:
  "untouched (process_tool_directory tool_name ev tool_dir) = untouched ev"
proof -
  have "untouched (process_tool_directory tool_name ev tool_dir)
      = untouched (foldl (load_sarif_file tool_name) ev (sarif_files tool_dir))"
    unfolding process_tool_directory_def
    by (rule foldl_preserves) (rule untouched_load_json_file)
  also have "\<dots> = untouched ev"
    by (rule foldl_preserves) (rule untouched_load_sarif_file)
  finally show ?thesis .
qed

lemma untouched_load_tool_results:
  "untouched (load_tool_results scan_results_dir ev) = untouched ev"
  unfolding load_tool_results_def
proof (rule foldl_preserves)
  fix s pattern
  show "untouched (foldl (process_tool_directory (rstrip_dash pattern)) s
                     (tool_dirs scan_results_dir pattern)) = untouched s"
    by (rule foldl_preserves) (rule untouched_process_tool_directory)
qed

lemma untouched_load_scan_results:
  "untouched (load_scan_results scan_results_dir ev) = untouched ev"
  by (simp add: load_scan_results_def Let_def untouched_load_tool_results
        untouched_load_vulnerability_analysis split: option.splits)

lemma required_tools_loop_no_results:
  "required_tools_loop Map.empty reqs \<longleftrightarrow>
     (\<forall>(tool, requirements) \<in> set reqs. \<not> get_or (required requirements) False)"
proof (induction reqs)
  case Nil
  show ?case by simp
next
  case (Cons entry reqs)
  obtain tool requirements where entry: "entry = (tool, requirements)"
    by (cases entry)
  have unknown: "dict_get Map.empty tool ''unknown'' \<notin> set [''passed'', ''success'']"
    by (simp add: dict_get_def)
  show ?case
    using Cons.IH unknown by (simp add: entry Let_def)
qed

lemma evaluate_required_tools_no_results:
  assumes "sr_tool_results (scan_results ev) = None"
  shows "evaluate_required_tools ev \<longleftrightarrow>
     (\<forall>(tool, requirements) \<in> set (tool_requirements (config ev)).
        \<not> get_or (required requirements) False)"
  by (simp add: evaluate_required_tools_def assms get_or_def required_tools_loop_no_results)

lemma scan_results_evaluate_security_gates:
  "scan_results (snd (evaluate_security_gates now ev)) = scan_results ev"
  by (cases "calculate_vulnerability_metrics ev")
     (simp_all add: evaluate_security_gates_def Let_def split: option.splits)

text \<open>
  Claim C6. After loading any scan-results directory into a fresh evaluator, the
  \<^verbatim>\<open>scan_results\<close> dictionary has no \<^verbatim>\<open>tool_results\<close> key (the loader only stores
  \<^verbatim>\<open>analysis\<close>), and the evaluation does not change \<^verbatim>\<open>scan_results\<close> either. Hence
  the required-tools check is true exactly when no entry of \<^verbatim>\<open>tool_requirements\<close>
  is marked required; under the default policy, which requires CodeQL and Grype, it
  is false on every run, and so is the \<^verbatim>\<open>required_tools_passed\<close> metric.
\<close>

theorem tool_results_never_loaded:
  "sr_tool_results (scan_results (load_scan_results scan_results_dir (init_evaluator cfg))) = None
   \<and> config (load_scan_results scan_results_dir (init_evaluator cfg)) = cfg
   \<and> scan_results (snd (evaluate_security_gates now ev)) = scan_results ev
   \<and> (evaluate_required_tools (load_scan_results scan_results_dir (init_evaluator cfg)) \<longleftrightarrow>
        (\<forall>(tool, requirements) \<in> set (tool_requirements cfg).
           \<not> get_or (required requirements) False))
   \<and> \<not> evaluate_required_tools (load_scan_results scan_results_dir (init_evaluator get_default_policy))
   \<and> (calculate_vulnerability_metrics
         (load_scan_results scan_results_dir (init_evaluator get_default_policy)) = Inr m
        \<longrightarrow> \<not> required_tools_passed m)"
proof -
  have u: "untouched (load_scan_results scan_results_dir (init_evaluator c)) = (c, None)" for c
    by (simp add: untouched_load_scan_results) (simp add: untouched_def init_evaluator_def)
  then have none: "sr_tool_results (scan_results (load_scan_results scan_results_dir (init_evaluator c))) = None"
    and cfg: "config (load_scan_results scan_results_dir (init_evaluator c)) = c" for c
    by (simp_all add: untouched_def)
  have iff: "evaluate_required_tools (load_scan_results scan_results_dir (init_evaluator c)) \<longleftrightarrow>
        (\<forall>(tool, requirements) \<in> set (tool_requirements c). \<not> get_or (required requirements) False)" for c
    by (simp add: evaluate_required_tools_no_results [OF none] cfg)
  have dflt: "\<not> evaluate_required_tools (load_scan_results scan_results_dir (init_evaluator get_default_policy))"
    by (simp add: iff) (simp add: get_default_policy_def get_or_def)
  have "calculate_vulnerability_metrics
         (load_scan_results scan_results_dir (init_evaluator get_default_policy)) = Inr m
        \<longrightarrow> \<not> required_tools_passed m"
    using dflt by (auto simp add: calculate_vulnerability_metrics_def Let_def split: option.splits)
  with none cfg iff dflt scan_results_evaluate_security_gates show ?thesis
    by blast
qed

theorem tool_results_never_loaded_witness:
  "list_all (\<lambda>(tool, requirements). \<not> get_or (required requirements) False)
      (tool_requirements (policy_with_rules []))
   \<and> evaluate_required_tools (load_scan_results example_scan_dir (init_evaluator (policy_with_rules [])))
   \<and> sr_tool_results (scan_results (load_scan_results example_scan_dir (init_evaluator get_default_policy))) = None
   \<and> \<not> evaluate_required_tools (load_scan_results example_scan_dir (init_evaluator get_default_policy))
   \<and> calculate_vulnerability_metrics (load_scan_results example_scan_dir (init_evaluator get_default_policy))
       = Inr (zero_metrics\<lparr> total_vulnerabilities := 1, low_count := 1,
                tool_counts := [(''unknown'', 1)], category_counts := [(''unknown'', 1)],
                required_tools_passed := False \<rparr>)"
proof -
  let ?ev = "load_scan_results example_scan_dir (init_evaluator get_default_policy)"
  have h: "\<forall>(tool, requirements) \<in> set (tool_requirements (policy_with_rules [])).
       \<not> get_or (required requirements) False"
    by (simp add: policy_with_rules_def)
  note a = tool_results_never_loaded [of example_scan_dir "policy_with_rules []"]
  note b = tool_results_never_loaded [of example_scan_dir get_default_policy]
  from a h have c1: "evaluate_required_tools (load_scan_results example_scan_dir (init_evaluator (policy_with_rules [])))"
    by blast
  from b have cfg: "config ?ev = get_default_policy" and tools: "\<not> evaluate_required_tools ?ev"
    by blast+
  define v where "v = the (create_vulnerability_from_data (example_finding ''low'' ''Verbose log''))"
  have v: "f_is_false_positive v = Some False" "f_severity v = Some ''low''"
    "f_tool v = Some ''unknown''" "f_category v = Some ''unknown''" "f_cve_id v = None"
    "f_cwe_id v = None" "f_title v = Some ''Verbose log''"
    by (simp_all add: v_def create_vulnerability_from_data_def example_finding_def get_or_def)
  have vs: "vulnerabilities ?ev = [v]"
    by (simp add: load_scan_results_def load_tool_results_def example_scan_dir_def
          tool_dir_patterns_def load_vulnerability_analysis_def append_vulnerability_def
          process_tool_directory_def load_sarif_file_def create_vulnerability_from_data_def
          init_evaluator_def v_def)
  have lw: "lower ''Verbose log'' = ''verbose log''"
    by code_simp
  have l1: "lower ''CWE-999'' = ''cwe-999''"
    by code_simp
  have l2: "lower ''info-only'' = ''info-only''"
    by code_simp
  have l3: "lower ''documentation'' = ''documentation''"
    by code_simp
  have al: "allow_list get_default_policy = [''CWE-999'', ''info-only'', ''documentation'']"
    by (simp add: get_default_policy_def)
  have na: "\<not> is_allowed_vulnerability get_default_policy v"
    by (simp add: is_allowed_vulnerability_def v al get_or_def truthy_str_def lw l1 l2 l3
          sublist_code(3))
  have cnt: "count_vulnerabilities get_default_policy [v]
      = \<lparr> severity_counts = [(''low'', 1)], tool_cnts = [(''unknown'', 1)],
          category_cnts = [(''unknown'', 1)], secret_cnt = 0, cve_cnt = 0 \<rparr>"
    by (simp add: count_vulnerabilities_def count_vulnerability_def v na get_or_def
          truthy_str_def zero_counters_def)
  have th: "severity_thresholds get_default_policy ''high'' = Some 10"
    by (simp add: get_default_policy_def)
  have calc: "calculate_vulnerability_metrics ?ev
       = Inr (zero_metrics\<lparr> total_vulnerabilities := 1, low_count := 1,
                tool_counts := [(''unknown'', 1)], category_counts := [(''unknown'', 1)],
                required_tools_passed := False \<rparr>)"
    by (simp add: calculate_vulnerability_metrics_def cfg vs cnt th tools v get_or_def
          count_of_def zero_metrics_def)
  from h have h': "list_all (\<lambda>(tool, requirements). \<not> get_or (required requirements) False)
      (tool_requirements (policy_with_rules []))"
    by (simp only: list_all_iff)
  from h' c1 b calc show ?thesis by blast
qed

section \<open>SARIF results and the findings made from them\<close>

lemma results_loop_eq:
  "results_loop tool_name rs acc =
     acc @ map (process_result tool_name)
             (filter (\<lambda>r. level r \<in> {Some ''error'', Some ''warning'', Some ''note''}) rs)"
  by (induction rs arbitrary: acc) simp_all

lemma runs_loop_eq:
  "runs_loop tool_name rns acc =
     acc @ map (process_result tool_name)
             (filter (\<lambda>r. level r \<in> {Some ''error'', Some ''warning'', Some ''note''})
                (concat (map (\<lambda>run. get_or (results run) []) rns)))"
  by (induction rns arbitrary: acc) (simp_all add: results_loop_eq)

lemma process_result_severity:
  "f_severity (process_result tool_name r) = Some (map_sarif_level_to_severity (level r))"
  by (simp add: process_result_def Let_def split: option.splits list.splits)

lemma process_result_located:
  assumes "locations r = Some (loc # others)" and "physicalLocation loc = Some pl"
  shows "f_file_path (process_result tool_name r) =
           (case artifactLocation pl of None \<Rightarrow> None | Some al \<Rightarrow> uri al)"
    and "f_line_number (process_result tool_name r) =
           (case region pl of None \<Rightarrow> None | Some rg \<Rightarrow> startLine rg)"
  using assms by (simp_all add: process_result_def Let_def get_or_def split: option.splits)

lemma process_result_unlocated:
  assumes "locations r = None \<or> locations r = Some []
           \<or> (\<exists>loc others. locations r = Some (loc # others) \<and> physicalLocation loc = None)"
  shows "f_file_path (process_result tool_name r) = None"
    and "f_line_number (process_result tool_name r) = None"
  using assms by (auto simp add: process_result_def Let_def)

text \<open>
  Claim C9. The findings produced from a SARIF log are, in order, exactly the
  entries of all \<^verbatim>\<open>run.results\<close> whose level is \<^verbatim>\<open>error\<close>, \<^verbatim>\<open>warning\<close> or
  \<^verbatim>\<open>note\<close>, one finding each. The severity of the finding is \<^verbatim>\<open>high\<close> for
  \<^verbatim>\<open>error\<close>, \<^verbatim>\<open>medium\<close> for \<^verbatim>\<open>warning\<close> and \<^verbatim>\<open>low\<close> for \<^verbatim>\<open>note\<close>. Its file path
  and line number are those of the \<^verbatim>\<open>physicalLocation\<close> of the first entry of
  \<^verbatim>\<open>locations\<close> when that is present, and absent otherwise.
\<close>

theorem sarif_results_become_findings:
  "process_sarif_for_tool sarif_data tool_name =
     map (process_result tool_name)
       (filter (\<lambda>r. level r \<in> {Some ''error'', Some ''warning'', Some ''note''})
          (concat (map (\<lambda>run. get_or (results run) []) (get_or (runs sarif_data) []))))
   \<and> (level r = Some ''error'' \<longrightarrow> f_severity (process_result tool_name r) = Some ''high'')
   \<and> (level r = Some ''warning'' \<longrightarrow> f_severity (process_result tool_name r) = Some ''medium'')
   \<and> (level r = Some ''note'' \<longrightarrow> f_severity (process_result tool_name r) = Some ''low'')
   \<and> (locations r = Some (loc # others) \<and> physicalLocation loc = Some pl \<longrightarrow>
        f_file_path (process_result tool_name r) =
          (case artifactLocation pl of None \<Rightarrow> None | Some al \<Rightarrow> uri al)
        \<and> f_line_number (process_result tool_name r) =
          (case region pl of None \<Rightarrow> None | Some rg \<Rightarrow> startLine rg))
   \<and> (locations r = None \<or> locations r = Some []
        \<or> (\<exists>loc others. locations r = Some (loc # others) \<and> physicalLocation loc = None) \<longrightarrow>
        f_file_path (process_result tool_name r) = None
        \<and> f_line_number (process_result tool_name r) = None)"
proof (intro conjI impI)
  show "process_sarif_for_tool sarif_data tool_name =
     map (process_result tool_name)
       (filter (\<lambda>r. level r \<in> {Some ''error'', Some ''warning'', Some ''note''})
          (concat (map (\<lambda>run. get_or (results run) []) (get_or (runs sarif_data) []))))"
    by (simp add: process_sarif_for_tool_def runs_loop_eq)
next
  assume "level r = Some ''error''"
  then show "f_severity (process_result tool_name r) = Some ''high''"
    by (simp add: process_result_severity map_sarif_level_to_severity_def)
next
  assume "level r = Some ''warning''"
  then show "f_severity (process_result tool_name r) = Some ''medium''"
    by (simp add: process_result_severity map_sarif_level_to_severity_def)
next
  assume "level r = Some ''note''"
  then show "f_severity (process_result tool_name r) = Some ''low''"
    by (simp add: process_result_severity map_sarif_level_to_severity_def)
next
  assume a: "locations r = Some (loc # others) \<and> physicalLocation loc = Some pl"
  then show "f_file_path (process_result tool_name r) =
          (case artifactLocation pl of None \<Rightarrow> None | Some al \<Rightarrow> uri al)"
    by (intro process_result_located(1) [of r loc others pl]) simp_all
  from a show "f_line_number (process_result tool_name r) =
          (case region pl of None \<Rightarrow> None | Some rg \<Rightarrow> startLine rg)"
    by (intro process_result_located(2) [of r loc others pl]) simp_all
next
  assume a: "locations r = None \<or> locations r = Some []
        \<or> (\<exists>loc others. locations r = Some (loc # others) \<and> physicalLocation loc = None)"
  then show "f_file_path (process_result tool_name r) = None"
    by (rule process_result_unlocated(1))
  from a show "f_line_number (process_result tool_name r) = None"
    by (rule process_result_unlocated(2))
qed

theorem sarif_results_become_findings_witness:
  "level example_result_error = Some ''error''
   \<and> f_severity (process_result ''codeql-results'' example_result_error) = Some ''high''
   \<and> locations example_result_error = Some (example_location # [\<lparr> physicalLocation = None \<rparr>])
   \<and> physicalLocation example_location
        = Some \<lparr> artifactLocation = Some \<lparr> uri = Some ''src/Editor/Graph.cs'' \<rparr>,
                 region = Some \<lparr> startLine = Some 42 \<rparr> \<rparr>
   \<and> f_file_path (process_result ''codeql-results'' example_result_error) = Some ''src/Editor/Graph.cs''
   \<and> f_line_number (process_result ''codeql-results'' example_result_error) = Some 42
   \<and> level example_result_warning = Some ''warning''
   \<and> f_severity (process_result ''codeql-results'' example_result_warning) = Some ''medium''
   \<and> f_file_path (process_result ''codeql-results'' example_result_warning) = None
   \<and> process_sarif_for_tool example_sarif ''codeql-results''
        = [process_result ''codeql-results'' example_result_error,
           process_result ''codeql-results'' example_result_warning]"
proof -
  let ?pl = "\<lparr> artifactLocation = Some \<lparr> uri = Some ''src/Editor/Graph.cs'' \<rparr>,
                 region = Some \<lparr> startLine = Some 42 \<rparr> \<rparr>"
  have h1: "level example_result_error = Some ''error''"
    by (simp add: example_result_error_def)
  have h2: "locations example_result_error = Some (example_location # [\<lparr> physicalLocation = None \<rparr>])"
    by (simp add: example_result_error_def)
  have h3: "physicalLocation example_location = Some ?pl"
    by (simp add: example_location_def)
  have h4: "level example_result_warning = Some ''warning''"
    by (simp add: example_result_warning_def)
  have h5: "\<exists>loc others. locations example_result_warning = Some (loc # others) \<and> physicalLocation loc = None"
    by (simp add: example_result_warning_def)
  note a = sarif_results_become_findings [of example_sarif "''codeql-results''" example_result_error
      example_location "[\<lparr> physicalLocation = None \<rparr>]" ?pl]
  note b = sarif_results_become_findings [of example_sarif "''codeql-results''" example_result_warning]
  from a h1 have c1: "f_severity (process_result ''codeql-results'' example_result_error) = Some ''high''"
    by blast
  from a h2 h3 have c2: "f_file_path (process_result ''codeql-results'' example_result_error) = Some ''src/Editor/Graph.cs''"
    and c3: "f_line_number (process_result ''codeql-results'' example_result_error) = Some 42"
    by simp_all
  from b h4 have c4: "f_severity (process_result ''codeql-results'' example_result_warning) = Some ''medium''"
    by blast
  from b h5 have c5: "f_file_path (process_result ''codeql-results'' example_result_warning) = None"
    by blast
  from a have "process_sarif_for_tool example_sarif ''codeql-results''
        = map (process_result ''codeql-results'')
       (filter (\<lambda>r. level r \<in> {Some ''error'', Some ''warning'', Some ''note''})
          (concat (map (\<lambda>run. get_or (results run) []) (get_or (runs example_sarif) []))))"
    by blast
  then have c6: "process_sarif_for_tool example_sarif ''codeql-results''
        = [process_result ''codeql-results'' example_result_error,
           process_result ''codeql-results'' example_result_warning]"
    by (simp add: example_sarif_def get_or_def h1 h4) (simp add: example_result_none_def)
  from h1 h2 h3 h4 c1 c2 c3 c4 c5 c6 show ?thesis by blast
qed

section \<open>The allow-list and the total\<close>

text \<open>When a finding is on the allow-list, and what the loop does with it.\<close>

lemma is_allowed_vulnerability_iff:
  "is_allowed_vulnerability cfg v \<longleftrightarrow>
     (\<exists>a \<in> set (allow_list cfg). f_cwe_id v = Some a)
     \<or> (\<exists>a \<in> set (allow_list cfg). sublist (lower a) (lower (get_or (f_title v) '''')))"
proof -
  have empty: "sublist (lower []) t" for t
    by (simp add: lower_def)
  show ?thesis
    by (cases "f_cwe_id v")
       (auto simp add: is_allowed_vulnerability_def Let_def truthy_str_def list_ex_iff
          intro: bexI [where x = "[]"] empty)
qed

lemma count_vulnerability_skipped:
  "get_or (f_is_false_positive v) False \<or> is_allowed_vulnerability cfg v \<Longrightarrow>
   count_vulnerability cfg c v = c"
  by (auto simp add: count_vulnerability_def)

lemma sum_incr: "sum_list (map snd (incr k d)) = Suc (sum_list (map snd d))"
  by (induction k d rule: incr.induct) simp_all

lemma sum_severity_counts_step:
  "sum_list (map snd (severity_counts (count_vulnerability cfg c v))) =
     sum_list (map snd (severity_counts c))
     + (if \<not> get_or (f_is_false_positive v) False \<and> \<not> is_allowed_vulnerability cfg v then 1 else 0)"
  by (simp add: count_vulnerability_def Let_def sum_incr)

lemma sum_severity_counts_foldl:
  "sum_list (map snd (severity_counts (foldl (count_vulnerability cfg) c vs))) =
     sum_list (map snd (severity_counts c))
     + length (filter (\<lambda>v. \<not> get_or (f_is_false_positive v) False
                            \<and> \<not> is_allowed_vulnerability cfg v) vs)"
  by (induction vs arbitrary: c) (simp_all add: sum_severity_counts_step)

text \<open>
  The sum of the severity counts is the number of findings that are neither false
  positives nor allow-listed; \<^verbatim>\<open>total_vulnerabilities\<close> exceeds it by the number
  of allow-listed findings.
\<close>

lemma sum_severity_counts:
  "sum_list (map snd (severity_counts (count_vulnerabilities cfg vs))) =
     length (filter (\<lambda>v. \<not> get_or (f_is_false_positive v) False
                          \<and> \<not> is_allowed_vulnerability cfg v) vs)"
  by (simp add: count_vulnerabilities_def sum_severity_counts_foldl zero_counters_def)

lemma total_vulnerabilities_excess:
  assumes "calculate_vulnerability_metrics ev = Inr m"
  shows "total_vulnerabilities m =
     sum_list (map snd (severity_counts (count_vulnerabilities (config ev) (vulnerabilities ev))))
     + length (filter (\<lambda>v. \<not> get_or (f_is_false_positive v) False
                            \<and> is_allowed_vulnerability (config ev) v) (vulnerabilities ev))"
proof -
  have split: "length (filter P xs) = length (filter (\<lambda>x. P x \<and> \<not> Q x) xs)
                 + length (filter (\<lambda>x. P x \<and> Q x) xs)" for P Q and xs :: "finding list"
    by (induction xs) simp_all
  from assms have "total_vulnerabilities m =
      length (filter (\<lambda>v. \<not> get_or (f_is_false_positive v) False) (vulnerabilities ev))"
    by (auto simp add: calculate_vulnerability_metrics_def Let_def split: option.splits)
  then show ?thesis
    by (simp only: sum_severity_counts)
       (rule split [of "\<lambda>v. \<not> get_or (f_is_false_positive v) False" _
                       "is_allowed_vulnerability (config ev)"])
qed

lemma lower_default_allow_list:
  "map lower (allow_list get_default_policy) = [''cwe-999'', ''info-only'', ''documentation'']"
  by code_simp

lemma evaluate_security_gates_metrics:
  assumes "calculate_vulnerability_metrics ev = Inr m"
  shows "gd_metrics (gate_details (snd (evaluate_security_gates now ev))) = Some m"
  using assms
  by (simp add: evaluate_security_gates_def Let_def empty_details_def split: option.splits)

lemma save_evaluation_results_total:
  "gd_total_vulnerabilities (gate_details (snd (save_evaluation_results scan_id now ev))) =
     (case gd_metrics (gate_details ev) of
        None \<Rightarrow> gd_total_vulnerabilities (gate_details ev)
      | Some m \<Rightarrow> Some (critical_count m + high_count m + medium_count m + low_count m))"
  by (simp add: save_evaluation_results_def Let_def split: option.splits)

text \<open>
  Claim C2 fails on the code. One finding of critical severity whose CWE id is on
  the default allow-list: the loop skips it, so every severity count is zero, but
  \<^verbatim>\<open>total_vulnerabilities\<close> is computed by a second filter that drops only the
  false positives, and is 1. \<^verbatim>\<open>save_evaluation_results\<close> writes the sum of the four
  severity counts, which is 0, under the same name.
\<close>

theorem total_counts_allow_listed_finding:
  "is_allowed_vulnerability get_default_policy allowed_critical
   \<and> sum_list (map snd (severity_counts (count_vulnerabilities get_default_policy [allowed_critical]))) = 0
   \<and> calculate_vulnerability_metrics
        ((init_evaluator get_default_policy)\<lparr> vulnerabilities := [allowed_critical] \<rparr>)
      = Inr (zero_metrics\<lparr> total_vulnerabilities := 1, required_tools_passed := False \<rparr>)
   \<and> gd_total_vulnerabilities (gate_details (snd
        (save_evaluation_results (save_scan_id example_clock) (save_time example_clock) (snd
          (evaluate_security_gates (evaluation_time example_clock)
            ((init_evaluator get_default_policy)\<lparr> vulnerabilities := [allowed_critical] \<rparr>))))))
      = Some 0"
proof -
  let ?ev = "(init_evaluator get_default_policy)\<lparr> vulnerabilities := [allowed_critical] \<rparr>"
  have al: "is_allowed_vulnerability get_default_policy allowed_critical"
    by (simp add: is_allowed_vulnerability_def allowed_critical_def example_finding_def
          truthy_str_def get_default_policy_def)
  then have cnt: "count_vulnerabilities get_default_policy [allowed_critical] = zero_counters"
    by (simp add: count_vulnerabilities_def count_vulnerability_skipped)
  have fp: "\<not> get_or (f_is_false_positive allowed_critical) False"
    by (simp add: allowed_critical_def example_finding_def get_or_def)
  have th: "severity_thresholds get_default_policy ''high'' = Some 10"
    by (simp add: get_default_policy_def)
  have tools: "\<not> evaluate_required_tools ?ev"
    by (rule default_tools_not_passed) (simp_all add: init_evaluator_def)
  have cfg: "config ?ev = get_default_policy" and vs: "vulnerabilities ?ev = [allowed_critical]"
    by (simp_all add: init_evaluator_def)
  have calc: "calculate_vulnerability_metrics ?ev
      = Inr (zero_metrics\<lparr> total_vulnerabilities := 1, required_tools_passed := False \<rparr>)"
    by (simp add: calculate_vulnerability_metrics_def cfg vs cnt th tools fp
          zero_counters_def count_of_def zero_metrics_def)
  have saved: "gd_total_vulnerabilities (gate_details (snd
        (save_evaluation_results (save_scan_id example_clock) (save_time example_clock) (snd
          (evaluate_security_gates (evaluation_time example_clock) ?ev))))) = Some 0"
    by (simp only: save_evaluation_results_total evaluate_security_gates_metrics [OF calc])
       (simp add: zero_metrics_def)
  from al cnt calc saved show ?thesis
    by (simp add: zero_counters_def)
qed

text \<open>
  Claim C7 fails on the code, by the same defect. The title of the finding below
  contains the allow-list entry \<^verbatim>\<open>documentation\<close> in capitals, so the finding
  matches the allow-list; it is left out of the severity, tool, category, secret and
  CVE counts, but it is counted in \<^verbatim>\<open>total_vulnerabilities\<close>.
\<close>

theorem allow_listed_finding_in_total:
  "is_allowed_vulnerability get_default_policy allowed_by_title
   \<and> count_vulnerabilities get_default_policy [allowed_by_title] = zero_counters
   \<and> calculate_vulnerability_metrics
        ((init_evaluator get_default_policy)\<lparr> vulnerabilities := [allowed_by_title] \<rparr>)
      = Inr (zero_metrics\<lparr> total_vulnerabilities := 1, required_tools_passed := False \<rparr>)"
proof -
  let ?ev = "(init_evaluator get_default_policy)\<lparr> vulnerabilities := [allowed_by_title] \<rparr>"
  have title: "get_or (f_title allowed_by_title) '''' = ''Leaked token in DOCUMENTATION sample''"
    by (simp add: allowed_by_title_def example_finding_def get_or_def)
  have lw: "lower ''Leaked token in DOCUMENTATION sample'' = ''leaked token in documentation sample''"
    by code_simp
  have sub: "sublist ''documentation'' ''leaked token in documentation sample''"
    by (simp add: sublist_code(3))
  have "list_ex (\<lambda>a. sublist a (lower (get_or (f_title allowed_by_title) '''')))
          (map lower (allow_list get_default_policy))"
    by (simp only: lower_default_allow_list title lw) (simp add: sub)
  then have al: "is_allowed_vulnerability get_default_policy allowed_by_title"
    by (simp add: is_allowed_vulnerability_def Let_def list_ex_iff)
  then have cnt: "count_vulnerabilities get_default_policy [allowed_by_title] = zero_counters"
    by (simp add: count_vulnerabilities_def count_vulnerability_skipped)
  have fp: "\<not> get_or (f_is_false_positive allowed_by_title) False"
    by (simp add: allowed_by_title_def example_finding_def get_or_def)
  have th: "severity_thresholds get_default_policy ''high'' = Some 10"
    by (simp add: get_default_policy_def)
  have tools: "\<not> evaluate_required_tools ?ev"
    by (rule default_tools_not_passed) (simp_all add: init_evaluator_def)
  have cfg: "config ?ev = get_default_policy" and vs: "vulnerabilities ?ev = [allowed_by_title]"
    by (simp_all add: init_evaluator_def)
  have "calculate_vulnerability_metrics ?ev
      = Inr (zero_metrics\<lparr> total_vulnerabilities := 1, required_tools_passed := False \<rparr>)"
    by (simp add: calculate_vulnerability_metrics_def cfg vs cnt th tools fp
          zero_counters_def count_of_def zero_metrics_def)
  with al cnt show ?thesis
    by simp
qed

section \<open>The order of the top vulnerabilities\<close>

text \<open>Python's descending sort: a permutation, descending in the key, and stable.\<close>

lemma mset_sorted_reverse: "mset (sorted_reverse k xs) = mset xs"
  by (simp add: sorted_reverse_def)

lemma sorted_reverse_descending:
  "sorted_wrt (\<lambda>a b. k b \<le> k a) (sorted_reverse k xs)"
proof -
  have "sorted_wrt (\<lambda>a b. k a \<le> k b) (sort_key k (rev xs))"
    using sorted_sort_key [of k "rev xs"] by (simp only: sorted_wrt_map)
  then show ?thesis
    by (simp add: sorted_reverse_def sorted_wrt_rev)
qed

lemma sorted_reverse_stable:
  "filter (\<lambda>v. k v = a) (sorted_reverse k xs) = filter (\<lambda>v. k v = a) xs"
proof -
  have "filter (\<lambda>v. k v = a) (sorted_reverse k xs)
      = rev (filter (\<lambda>v. k v = a) (sort_key k (rev xs)))"
    by (simp add: sorted_reverse_def rev_filter)
  also have "\<dots> = rev (filter (\<lambda>v. k v = a) (rev xs))"
    by (simp only: sort_key_stable)
  also have "\<dots> = filter (\<lambda>v. k v = a) xs"
    by (simp add: rev_filter)
  finally show ?thesis .
qed

lemma sorted_reverse_take_drop:
  assumes "x \<in> set (take n (sorted_reverse k xs))" and "y \<in> set (drop n (sorted_reverse k xs))"
  shows "k y \<le> k x"
proof -
  have "sorted_wrt (\<lambda>a b. k b \<le> k a) (take n (sorted_reverse k xs) @ drop n (sorted_reverse k xs))"
    by (simp add: sorted_reverse_descending)
  then have "\<forall>x \<in> set (take n (sorted_reverse k xs)).
               \<forall>y \<in> set (drop n (sorted_reverse k xs)). k y \<le> k x"
    by (simp only: sorted_wrt_append) blast
  with assms show ?thesis
    by blast
qed

lemma vuln_key_le:
  "vuln_key a \<le> vuln_key b \<longleftrightarrow>
     fst (vuln_key a) < fst (vuln_key b)
     \<or> (fst (vuln_key a) = fst (vuln_key b) \<and> snd (vuln_key a) \<le> snd (vuln_key b))"
  by (cases "vuln_key a"; cases "vuln_key b") auto

text \<open>
  Claim C10, as the code has it. The findings selected for the report are the first
  \<open>limit\<close> (by default 10) entries of a rearrangement of all findings that is
  descending in the pair (severity rank, title): a higher rank comes first
  (critical = 4, high = 3, medium = 2, low = 1, anything else 0), and among equal
  ranks the lexicographically greater title comes first, that is, ties are broken by
  title in descending order. Findings with the same rank and title keep their
  original order, and no finding left out has a greater key than a selected one.
\<close>

theorem top_vulnerabilities_descending:
  "sorted_vulns vulnerability_data limit = take limit (sorted_reverse vuln_key vulnerability_data)
   \<and> get_top_vulnerabilities vulnerability_data limit
       = map format_vuln (sorted_vulns vulnerability_data limit)
   \<and> mset (sorted_reverse vuln_key vulnerability_data) = mset vulnerability_data
   \<and> sorted_wrt
        (\<lambda>a b. fst (vuln_key b) < fst (vuln_key a)
               \<or> (fst (vuln_key b) = fst (vuln_key a) \<and> snd (vuln_key b) \<le> snd (vuln_key a)))
        (sorted_reverse vuln_key vulnerability_data)
   \<and> filter (\<lambda>v. vuln_key v = key) (sorted_reverse vuln_key vulnerability_data)
       = filter (\<lambda>v. vuln_key v = key) vulnerability_data
   \<and> (\<forall>x \<in> set (sorted_vulns vulnerability_data limit).
        \<forall>y \<in> set (drop limit (sorted_reverse vuln_key vulnerability_data)).
          vuln_key y \<le> vuln_key x)
   \<and> fst (vuln_key v) = severity_order (get_or (f_severity v) ''low'')
   \<and> snd (vuln_key v) = get_or (f_title v) ''''"
proof (intro conjI ballI)
  show "sorted_wrt
        (\<lambda>a b. fst (vuln_key b) < fst (vuln_key a)
               \<or> (fst (vuln_key b) = fst (vuln_key a) \<and> snd (vuln_key b) \<le> snd (vuln_key a)))
        (sorted_reverse vuln_key vulnerability_data)"
    using sorted_reverse_descending [of vuln_key vulnerability_data]
    by (simp only: vuln_key_le)
next
  fix x y
  assume "x \<in> set (sorted_vulns vulnerability_data limit)"
    and "y \<in> set (drop limit (sorted_reverse vuln_key vulnerability_data))"
  then show "vuln_key y \<le> vuln_key x"
    by (simp only: sorted_vulns_def sorted_reverse_take_drop)
next
  show "filter (\<lambda>v. vuln_key v = key) (sorted_reverse vuln_key vulnerability_data)
       = filter (\<lambda>v. vuln_key v = key) vulnerability_data"
    by (rule sorted_reverse_stable)
next
  show "fst (vuln_key v) = severity_order (get_or (f_severity v) ''low'')"
    and "snd (vuln_key v) = get_or (f_title v) ''''"
    by (simp_all add: vuln_key_def)
qed (simp_all add: sorted_vulns_def get_top_vulnerabilities_def mset_sorted_reverse)

lemma vuln_key_tie_a: "vuln_key tie_a = (3, ''Authentication bypass'')"
  by (simp add: vuln_key_def tie_a_def example_finding_def get_or_def severity_order_def)

lemma vuln_key_tie_b: "vuln_key tie_b = (3, ''Buffer overflow'')"
  by (simp add: vuln_key_def tie_b_def example_finding_def get_or_def severity_order_def)

lemma vuln_key_medium_c: "vuln_key medium_c = (2, ''Cookie without Secure flag'')"
  by (simp add: vuln_key_def medium_c_def example_finding_def get_or_def severity_order_def)

lemma sorted_reverse_example:
  "sorted_reverse vuln_key [medium_c, tie_a, tie_b] = [tie_b, tie_a, medium_c]"
  by (simp add: sorted_reverse_def vuln_key_tie_a vuln_key_tie_b vuln_key_medium_c)

theorem top_vulnerabilities_descending_witness:
  "tie_b \<in> set (sorted_vulns [medium_c, tie_a, tie_b] 2)
   \<and> medium_c \<in> set (drop 2 (sorted_reverse vuln_key [medium_c, tie_a, tie_b]))
   \<and> vuln_key medium_c \<le> vuln_key tie_b
   \<and> sorted_vulns [medium_c, tie_a, tie_b] 2 = [tie_b, tie_a]"
proof -
  note inst = top_vulnerabilities_descending [of "[medium_c, tie_a, tie_b]" 2]
  have sv: "sorted_vulns [medium_c, tie_a, tie_b] 2 = [tie_b, tie_a]"
    using inst by (simp add: sorted_reverse_example)
  have h1: "tie_b \<in> set (sorted_vulns [medium_c, tie_a, tie_b] 2)"
    by (simp add: sv)
  have h2: "medium_c \<in> set (drop 2 (sorted_reverse vuln_key [medium_c, tie_a, tie_b]))"
    by (simp add: sorted_reverse_example)
  from inst h1 h2 have "vuln_key medium_c \<le> vuln_key tie_b"
    by blast
  with h1 h2 sv show ?thesis by blast
qed

text \<open>
  The claim as stated fails: of two findings of high severity the one with the
  greater title is reported first, so ties are not in ascending order of title.
\<close>

theorem top_vulnerabilities_tie_counterexample:
  "fst (vuln_key tie_a) = fst (vuln_key tie_b)
   \<and> get_or (f_title tie_a) '''' < get_or (f_title tie_b) ''''
   \<and> sorted_vulns [tie_a, tie_b] 10 = [tie_b, tie_a]
   \<and> map fv_title (get_top_vulnerabilities [tie_a, tie_b] 10)
       = [''Buffer overflow'', ''Authentication bypass'']"
proof -
  have s: "sorted_vulns [tie_a, tie_b] 10 = [tie_b, tie_a]"
    by (simp add: sorted_vulns_def sorted_reverse_def vuln_key_tie_a vuln_key_tie_b)
  have t: "fv_title (format_vuln tie_a) = ''Authentication bypass''"
    "fv_title (format_vuln tie_b) = ''Buffer overflow''"
    by (simp_all add: format_vuln_def tie_a_def tie_b_def example_finding_def get_or_def)
  have o: "get_or (f_title tie_a) '''' < get_or (f_title tie_b) ''''"
    by (simp add: tie_a_def tie_b_def example_finding_def get_or_def)
  show ?thesis
    by (simp add: s t o get_top_vulnerabilities_def vuln_key_tie_a vuln_key_tie_b)
qed

end
